theory Spec2Isabelle
  imports Main
begin

section \<open>Orchestrator backend: permission gate, audit trail and request handlers\<close>

text \<open>
  A shallow embedding of \<^verbatim>\<open>orchestrator-backend/src/OrchestratorPlugin.ts\<close>.
  An asynchronous function of the source is a value of type \<open>'a prog\<close>: the list of
  effects it performs on its collaborators, in the order it performs them, and the value
  it resolves to or the error it rejects with. The collaborators (HTTP authentication,
  the permission service, the V2 API object, the orchestrator service) are functions that
  answer a call with a value or with an error. A collaborator answers the same call in
  the same way within one request. The response object records what a handler sends; what
  the HTTP framework does with a second send, and the validation and routing that precede
  a handler, are outside this file of the source and outside the model.
\<close>

subsection \<open>Errors\<close>

text \<open>
  \<open>UnauthorizedError\<close> is the class of the RBAC package, which extends the
  framework's \<open>NotAllowedError\<close> and carries its name, \<open>TypeError\<close> is what the
  runtime raises when a property of \<open>undefined\<close> is read, \<open>Error msg\<close> is
  \<^verbatim>\<open>new Error(msg)\<close>, and \<open>Rejected name msg\<close> is any other value a collaborator
  rejects with.
\<close>

datatype error =
    UnauthorizedError
  | TypeError
  | Error string
  | Rejected string string

fun error_name :: "error \<Rightarrow> string" where
  "error_name UnauthorizedError = ''NotAllowedError''"
| "error_name TypeError = ''TypeError''"
| "error_name (Error m) = ''Error''"
| "error_name (Rejected n m) = n"

fun error_message :: "error \<Rightarrow> string" where
  "error_message UnauthorizedError = ''Unauthorized''"
| "error_message TypeError = ''Cannot read properties of undefined''"
| "error_message (Error m) = m"
| "error_message (Rejected n m) = m"

subsection \<open>Permissions and decisions\<close>

text \<open>
  Modelled from the spec: the permission values of the orchestrator-common package, which
  is not under src/. A permission is either a generic capability (read any workflow, use
  any workflow) or a capability scoped to one workflow id.
\<close>

datatype BasicPermission =
    orchestratorWorkflowPermission
  | orchestratorWorkflowSpecificPermission string
  | orchestratorWorkflowUsePermission
  | orchestratorWorkflowUseSpecificPermission string

text \<open>
  The response type of the permission service is a definitive decision: its \<open>result\<close> is
  \<open>ALLOW\<close> or \<open>DENY\<close>. The object the service returns is handed on as it is, so the
  model keeps whatever other properties it carries in \<open>properties\<close>; the literal
  \<^verbatim>\<open>{ result: AuthorizeResult.DENY }\<close> of the source has none.
\<close>

datatype AuthorizeResult = ALLOW | DENY

record AuthorizePermissionResponse =
  result :: AuthorizeResult
  properties :: "(string \<times> string) list"

record AuthorizePermissionRequest =
  permission :: BasicPermission

subsection \<open>JSON values and the data the handlers look into\<close>

datatype JsonValue =
    JNull
  | JBool bool
  | JNum int
  | JStr string
  | JArr "JsonValue list"
  | JObj "(string \<times> JsonValue) list"

type_synonym JsonObject = "(string \<times> JsonValue) list"

text \<open>Truthiness of a JSON value, and of a value that may be \<open>undefined\<close>.\<close>

fun json_truthy :: "JsonValue \<Rightarrow> bool" where
  "json_truthy JNull = False"
| "json_truthy (JBool b) = b"
| "json_truthy (JNum n) = (n \<noteq> 0)"
| "json_truthy (JStr s) = (s \<noteq> [])"
| "json_truthy (JArr xs) = True"
| "json_truthy (JObj kvs) = True"

fun truthy :: "JsonValue option \<Rightarrow> bool" where
  "truthy None = False"
| "truthy (Some v) = json_truthy v"

fun truthy_string :: "string option \<Rightarrow> bool" where
  "truthy_string None = False"
| "truthy_string (Some s) = (s \<noteq> [])"

text \<open>Reading a property of a JSON value: \<open>None\<close> is \<open>undefined\<close>.\<close>

fun json_get :: "JsonValue \<Rightarrow> string \<Rightarrow> JsonValue option" where
  "json_get (JObj kvs) k = map_of kvs k"
| "json_get v k = None"

text \<open>
  \<^verbatim>\<open>Object.keys\<close> of the \<open>properties\<close> of a schema, which is an object by its type.
\<close>

fun Object_keys :: "JsonValue \<Rightarrow> string list" where
  "Object_keys (JObj kvs) = map fst kvs"
| "Object_keys v = []"

text \<open>\<^verbatim>\<open>result[k] = v\<close> on an object.\<close>

fun assign :: "JsonObject \<Rightarrow> string \<Rightarrow> JsonValue \<Rightarrow> JsonObject" where
  "assign [] k v = [(k, v)]"
| "assign ((k', v') # kvs) k v =
     (if k' = k then (k, v) # kvs else (k', v') # assign kvs k v)"

record WorkflowOverviewDTO =
  workflowId :: string
  overview_data :: JsonValue

record WorkflowOverviewListResultDTO =
  overviews :: "WorkflowOverviewDTO list option"
  paginationInfo :: "JsonValue option"

record AssessedProcessInstanceDTO =
  instance_processId :: string
  instance_data :: JsonValue

record WorkflowInfo =
  serviceUrl :: "string option"

record WorkflowDefinition =
  dataInputSchema :: "JsonValue option"

record InputSchemaResponseDTO =
  inputSchema :: "JsonValue option"

record HttpRequest =
  path :: string
  params_workflowId :: string
  params_instanceId :: string
  query_instanceId :: "string option"
  body :: JsonValue

type_synonym credentials = string

subsection \<open>Audit events\<close>

record AuditResponse =
  status_code :: nat
  body_errors :: "(string \<times> string) list"

record AuditEvent =
  eventName :: string
  stage :: string
  status :: string
  level :: string
  audit_request :: HttpRequest
  response :: "AuditResponse option"
  errors :: "error list"
  message :: string

subsection \<open>Effects\<close>

datatype call =
    GetWorkflowsOverview
  | GetWorkflowSourceById string
  | ExecuteWorkflow string
  | RetriggerInstance string string
  | GetWorkflowOverviewById string
  | GetWorkflowStatuses
  | GetWorkflowInputSchemaById string string
  | GetInstances "string list"
  | GetWorkflowIds
  | GetInstanceById string
  | AbortWorkflow string string
  | FetchWorkflowInfo string
  | FetchWorkflowDefinition string
  | FetchInstanceVariables string

datatype body =
    Json JsonValue
  | Text string
  | Overviews WorkflowOverviewListResultDTO
  | Instance AssessedProcessInstanceDTO
  | ErrorMessage string
  | SchemaAndData JsonValue "JsonObject option"

datatype event =
    Audit AuditEvent
  | LoggerError string error
  | PermissionsAuthorize "AuthorizePermissionRequest list"
  | DataAccess call
  | Response nat body
  | Next error

type_synonym 'a prog = "event list \<times> (error + 'a)"

definition return :: "'a \<Rightarrow> 'a prog" where
  "return x = ([], Inr x)"

definition throw :: "error \<Rightarrow> 'a prog" where
  "throw e = ([], Inl e)"

definition emit :: "event \<Rightarrow> unit prog" where
  "emit ev = ([ev], Inr ())"

definition await :: "error + 'a \<Rightarrow> 'a prog" where
  "await r = ([], r)"

definition bind :: "'a prog \<Rightarrow> ('a \<Rightarrow> 'b prog) \<Rightarrow> 'b prog" where
  "bind m f =
     (case snd m of
        Inl e \<Rightarrow> (fst m, Inl e)
      | Inr x \<Rightarrow> (fst m @ fst (f x), snd (f x)))"

text \<open>\<^verbatim>\<open>try { m } catch (error) { h(error) }\<close>\<close>

definition try_catch :: "'a prog \<Rightarrow> (error \<Rightarrow> 'a prog) \<Rightarrow> 'a prog" where
  "try_catch m h =
     (case snd m of
        Inl e \<Rightarrow> (fst m @ fst (h e), snd (h e))
      | Inr x \<Rightarrow> m)"

text \<open>
  \<^verbatim>\<open>Promise.all(xs.map(f))\<close>: every call is issued, in the order of the list; the result
  is the list of the values when all of them resolve. When some reject, the model
  rejects with the error of the first rejected promise of the list (the runtime takes the
  one that rejects first in time).
\<close>

fun all_settled :: "(error + 'a) list \<Rightarrow> error + 'a list" where
  "all_settled [] = Inr []"
| "all_settled (Inl e # rs) = Inl e"
| "all_settled (Inr x # rs) =
     (case all_settled rs of Inl e \<Rightarrow> Inl e | Inr xs \<Rightarrow> Inr (x # xs))"

definition Promise_all :: "'a prog list \<Rightarrow> 'a list prog" where
  "Promise_all ms = (concat (map fst ms), all_settled (map snd ms))"

subsection \<open>The collaborators\<close>

type_synonym HttpAuthService = "HttpRequest \<Rightarrow> error + credentials"

type_synonym PermissionsService =
  "AuthorizePermissionRequest list \<Rightarrow> credentials \<Rightarrow> error + AuthorizePermissionResponse list"

definition permissionsSvc_authorize ::
  "PermissionsService \<Rightarrow> AuthorizePermissionRequest list \<Rightarrow> credentials
     \<Rightarrow> AuthorizePermissionResponse list prog" where
  "permissionsSvc_authorize permissionsSvc requests credentials =
     ([PermissionsAuthorize requests], permissionsSvc requests credentials)"

subsection \<open>The permission gate\<close>

text \<open>\<^verbatim>\<open>d => d[0]\<close>: \<open>None\<close> is \<open>undefined\<close>, the first element of an empty array.\<close>

fun first_decision :: "AuthorizePermissionResponse list \<Rightarrow> AuthorizePermissionResponse option" where
  "first_decision [] = None"
| "first_decision (d # ds) = Some d"

text \<open>
  \<^verbatim>\<open>decisions.find(d => d.result === AuthorizeResult.ALLOW)\<close>: the elements are visited
  in order up to the first match; reading \<open>result\<close> of \<open>undefined\<close> raises.
\<close>

fun find_ALLOW ::
  "AuthorizePermissionResponse option list \<Rightarrow> error + AuthorizePermissionResponse option" where
  "find_ALLOW [] = Inr None"
| "find_ALLOW (None # ds) = Inl TypeError"
| "find_ALLOW (Some d # ds) = (if result d = ALLOW then Inr (Some d) else find_ALLOW ds)"

definition authorize ::
  "HttpRequest \<Rightarrow> BasicPermission list \<Rightarrow> PermissionsService \<Rightarrow> HttpAuthService
     \<Rightarrow> AuthorizePermissionResponse prog" where
  "authorize request anyOfPermissions permissionsSvc httpAuth =
     bind (await (httpAuth request)) (\<lambda>credentials.
     bind (Promise_all
             (map (\<lambda>permission.
                     permissionsSvc_authorize permissionsSvc
                       [\<lparr>permission = permission\<rparr>] credentials)
                  anyOfPermissions)) (\<lambda>decisionResponses.
     let decisions = map first_decision decisionResponses in
     bind (await (find_ALLOW decisions)) (\<lambda>allow.
     return (case allow of
               Some d \<Rightarrow> d
             | None \<Rightarrow> \<lparr>result = DENY, properties = []\<rparr>))))"

text \<open>
  \<^verbatim>\<open>workflowIds.filter((_, idx) => decisions[idx].result === AuthorizeResult.ALLOW)\<close>:
  an id with no decision at its index raises; decisions beyond the ids are not read.
\<close>

fun filter_by_decisions ::
  "string list \<Rightarrow> AuthorizePermissionResponse list \<Rightarrow> error + string list" where
  "filter_by_decisions [] ds = Inr []"
| "filter_by_decisions (w # ws) [] = Inl TypeError"
| "filter_by_decisions (w # ws) (d # ds) =
     (case filter_by_decisions ws ds of
        Inl e \<Rightarrow> Inl e
      | Inr r \<Rightarrow> Inr (if result d = ALLOW then w # r else r))"

definition filterAuthorizedWorkflowIds ::
  "HttpRequest \<Rightarrow> PermissionsService \<Rightarrow> HttpAuthService \<Rightarrow> string list \<Rightarrow> string list prog" where
  "filterAuthorizedWorkflowIds request permissionsSvc httpAuth workflowIds =
     bind (await (httpAuth request)) (\<lambda>credentials.
     bind (permissionsSvc_authorize permissionsSvc
             [\<lparr>permission = orchestratorWorkflowPermission\<rparr>] credentials)
          (\<lambda>genericWorkflowPermissionDecision.
     case first_decision genericWorkflowPermissionDecision of
       None \<Rightarrow> throw TypeError
     | Some d \<Rightarrow>
         if result d = ALLOW then return workflowIds
         else
           let specificWorkflowRequests =
                 map (\<lambda>workflowId.
                        \<lparr>permission = orchestratorWorkflowSpecificPermission workflowId\<rparr>)
                     workflowIds in
           bind (permissionsSvc_authorize permissionsSvc specificWorkflowRequests credentials)
                (\<lambda>decisions. await (filter_by_decisions workflowIds decisions))))"

text \<open>
  \<^verbatim>\<open>!workflows.overviews\<close> holds for an absent field only: an empty array is truthy.
\<close>

definition filterAuthorizedWorkflows ::
  "HttpRequest \<Rightarrow> PermissionsService \<Rightarrow> HttpAuthService
     \<Rightarrow> 'a WorkflowOverviewListResultDTO_scheme \<Rightarrow> 'a WorkflowOverviewListResultDTO_scheme prog" where
  "filterAuthorizedWorkflows request permissionsSvc httpAuth workflows =
     (case overviews workflows of
        None \<Rightarrow> return workflows
      | Some ws \<Rightarrow>
          bind (filterAuthorizedWorkflowIds request permissionsSvc httpAuth (map workflowId ws))
               (\<lambda>authorizedWorkflowIds.
          return (workflows\<lparr>overviews :=
                    Some (filter (\<lambda>w. workflowId w \<in> set authorizedWorkflowIds) ws)\<rparr>)))"


subsection \<open>The services behind the handlers\<close>

text \<open>
  The V2 API object, the orchestrator service and the input-schema service, whose code is
  not in this file of the source: each method is a function that answers with a value or
  rejects. \<open>buildPagination\<close> and the text of \<open>INTERNAL_SERVER_ERROR_MESSAGE\<close> are
  imported by the source; they are taken as they come.
\<close>

record services =
  permissions :: PermissionsService
  httpAuth :: HttpAuthService
  buildPagination :: "HttpRequest \<Rightarrow> error + JsonValue"
  INTERNAL_SERVER_ERROR_MESSAGE :: string
  v2_getWorkflowsOverview ::
    "JsonValue \<Rightarrow> JsonValue option \<Rightarrow> error + WorkflowOverviewListResultDTO"
  v2_getWorkflowSourceById :: "string \<Rightarrow> error + string"
  v2_executeWorkflow :: "JsonValue \<Rightarrow> string \<Rightarrow> string option \<Rightarrow> error + JsonValue"
  v2_retriggerInstance :: "string \<Rightarrow> string \<Rightarrow> error + JsonValue"
  v2_getWorkflowOverviewById :: "string \<Rightarrow> error + JsonValue"
  v2_getWorkflowStatuses :: "unit \<Rightarrow> error + JsonValue"
  v2_getWorkflowInputSchemaById :: "string \<Rightarrow> string \<Rightarrow> error + InputSchemaResponseDTO"
  v2_getInstances :: "JsonValue \<Rightarrow> JsonValue option \<Rightarrow> string list \<Rightarrow> error + JsonValue"
  v2_getWorkflowIds :: "unit \<Rightarrow> error + string list"
  v2_getInstanceById :: "string \<Rightarrow> bool option \<Rightarrow> error + AssessedProcessInstanceDTO"
  v2_abortWorkflow :: "string \<Rightarrow> string \<Rightarrow> error + JsonValue"
  v2_extractQueryParam :: "HttpRequest \<Rightarrow> string \<Rightarrow> string option"
  orchestratorService_fetchWorkflowInfo :: "string \<Rightarrow> error + WorkflowInfo option"
  orchestratorService_fetchWorkflowDefinition :: "string \<Rightarrow> error + WorkflowDefinition option"
  orchestratorService_fetchInstanceVariables :: "string \<Rightarrow> error + JsonObject option"
  dataInputSchemaService_extractWorkflowData :: "JsonObject \<Rightarrow> JsonObject option"

definition QUERY_PARAM_BUSINESS_KEY :: string where
  "QUERY_PARAM_BUSINESS_KEY = ''businessKey''"

definition QUERY_PARAM_INCLUDE_ASSESSMENT :: string where
  "QUERY_PARAM_INCLUDE_ASSESSMENT = ''includeAssessment''"

text \<open>A call of a service method: the call is recorded, its answer awaited.\<close>

definition data_access :: "call \<Rightarrow> error + 'a \<Rightarrow> 'a prog" where
  "data_access c r = ([DataAccess c], r)"

definition auditLog :: "AuditEvent \<Rightarrow> unit prog" where
  "auditLog ev = emit (Audit ev)"

definition logger_error :: "string \<Rightarrow> error \<Rightarrow> unit prog" where
  "logger_error endpoint error = emit (LoggerError endpoint error)"

text \<open>
  \<^verbatim>\<open>res.status(n).json(b)\<close>, \<^verbatim>\<open>res.json(b)\<close> (status 200) and
  \<^verbatim>\<open>res.status(200).contentType('text/plain').send(b)\<close>: the model records each call on
  the response object.
\<close>

definition res_send :: "nat \<Rightarrow> body \<Rightarrow> unit prog" where
  "res_send code b = emit (Response code b)"

definition next_error :: "error \<Rightarrow> unit prog" where
  "next_error error = emit (Next error)"

definition getRequestFilters :: "HttpRequest \<Rightarrow> JsonValue option" where
  "getRequestFilters req =
     (if truthy (json_get (body req) ''filters'') then json_get (body req) ''filters''
      else None)"

definition quoted :: "string \<Rightarrow> string" where
  "quoted s = [CHR 0x27] @ s @ [CHR 0x27]"

text \<open>The audit event every handler emits first.\<close>

definition start_event :: "string \<Rightarrow> string \<Rightarrow> HttpRequest \<Rightarrow> AuditEvent" where
  "start_event endpointName endpoint req =
     \<lparr>eventName = endpointName, stage = ''start'', status = ''succeeded'', level = ''debug'',
      audit_request = req, response = None, errors = [],
      message = ''Received request to '' @ quoted endpoint @ '' endpoint''\<rparr>"

definition manageDenyAuthorization :: "string \<Rightarrow> string \<Rightarrow> HttpRequest \<Rightarrow> unit prog" where
  "manageDenyAuthorization endpointName endpoint req =
     (let error = UnauthorizedError in
      bind (auditLog
             \<lparr>eventName = endpointName @ ''EndpointHit'', stage = ''authorization'',
              status = ''failed'', level = ''error'', audit_request = req,
              response = Some \<lparr>status_code = 403,
                               body_errors = [(error_name error, error_message error)]\<rparr>,
              errors = [error],
              message = ''Not authorize to request the '' @ endpoint @ '' endpoint''\<rparr>)
           (\<lambda>_. throw error))"

definition auditLogRequestError ::
  "services \<Rightarrow> error \<Rightarrow> string \<Rightarrow> string \<Rightarrow> HttpRequest \<Rightarrow> unit prog" where
  "auditLogRequestError env error endpointName endpoint req =
     bind (logger_error endpoint error) (\<lambda>_.
     auditLog
       \<lparr>eventName = endpointName @ ''EndpointHit'', stage = ''completion'',
        status = ''failed'', level = ''error'', audit_request = req,
        response = Some \<lparr>status_code = 500,
                         body_errors =
                           [(error_name error,
                             if error_message error \<noteq> [] then error_message error
                             else INTERNAL_SERVER_ERROR_MESSAGE env)]\<rparr>,
        errors = [error],
        message = ''Error occured while requesting the '' @ quoted endpoint @ '' endpoint''\<rparr>)"

text \<open>
  \<^verbatim>\<open>if (decision.result === AuthorizeResult.DENY) manageDenyAuthorization(...)\<close>
\<close>

definition deny_guard ::
  "AuthorizePermissionResponse \<Rightarrow> string \<Rightarrow> string \<Rightarrow> HttpRequest \<Rightarrow> unit prog" where
  "deny_guard decision endpointName endpoint req =
     (if result decision = DENY then manageDenyAuthorization endpointName endpoint req
      else return ())"

text \<open>\<^verbatim>\<open>catch (error) { auditLogRequestError(error, ...); next(error); }\<close>\<close>

definition on_error ::
  "services \<Rightarrow> string \<Rightarrow> string \<Rightarrow> HttpRequest \<Rightarrow> error \<Rightarrow> unit prog" where
  "on_error env endpointName endpoint req error =
     bind (auditLogRequestError env error endpointName endpoint req) (\<lambda>_. next_error error)"

subsection \<open>The handlers\<close>

definition getWorkflowsOverview_handler :: "services \<Rightarrow> HttpRequest \<Rightarrow> unit prog" where
  "getWorkflowsOverview_handler env req =
     (let endpointName = ''getWorkflowsOverview'';
          endpoint = ''/v2/workflows/overview'' in
      bind (auditLog (start_event ''getWorkflowsOverview'' endpoint req)) (\<lambda>_.
      try_catch
        (bind (await (buildPagination env req)) (\<lambda>pagination.
         bind (data_access GetWorkflowsOverview
                 (v2_getWorkflowsOverview env pagination (getRequestFilters req))) (\<lambda>result.
         bind (filterAuthorizedWorkflows req (permissions env) (httpAuth env) result)
              (\<lambda>workflows.
         res_send 200 (Overviews workflows)))))
        (on_error env endpointName endpoint req)))"

definition getWorkflowSourceById_handler :: "services \<Rightarrow> HttpRequest \<Rightarrow> unit prog" where
  "getWorkflowSourceById_handler env req =
     (let workflowId = params_workflowId req;
          endpointName = ''getWorkflowSourceById'';
          endpoint = ''/v2/workflows/'' @ workflowId @ ''/source'' in
      bind (auditLog (start_event endpointName endpoint req)) (\<lambda>_.
      bind (authorize req
              [orchestratorWorkflowPermission, orchestratorWorkflowSpecificPermission workflowId]
              (permissions env) (httpAuth env)) (\<lambda>decision.
      bind (deny_guard decision endpointName endpoint req) (\<lambda>_.
      try_catch
        (bind (data_access (GetWorkflowSourceById workflowId)
                 (v2_getWorkflowSourceById env workflowId)) (\<lambda>result.
         res_send 200 (Text result)))
        (on_error env endpointName endpoint req)))))"

definition executeWorkflow_handler :: "services \<Rightarrow> HttpRequest \<Rightarrow> unit prog" where
  "executeWorkflow_handler env req =
     (let workflowId = params_workflowId req;
          endpointName = ''executeWorkflow'';
          endpoint = ''/v2/workflows/'' @ workflowId @ ''/execute'' in
      bind (auditLog (start_event endpointName endpoint req)) (\<lambda>_.
      bind (authorize req
              [orchestratorWorkflowUsePermission,
               orchestratorWorkflowUseSpecificPermission workflowId]
              (permissions env) (httpAuth env)) (\<lambda>decision.
      bind (deny_guard decision endpointName endpoint req) (\<lambda>_.
      let businessKey = v2_extractQueryParam env req QUERY_PARAM_BUSINESS_KEY;
          executeWorkflowRequestDTO = body req in
      try_catch
        (bind (data_access (ExecuteWorkflow workflowId)
                 (v2_executeWorkflow env executeWorkflowRequestDTO workflowId businessKey))
              (\<lambda>result.
         res_send 200 (Json result)))
        (on_error env endpointName endpoint req)))))"

definition retriggerInstance_handler :: "services \<Rightarrow> HttpRequest \<Rightarrow> unit prog" where
  "retriggerInstance_handler env req =
     (let workflowId = params_workflowId req;
          instanceId = params_instanceId req;
          endpointName = ''retriggerInstance'';
          endpoint = ''/v2/workflows/'' @ workflowId @ ''/'' @ instanceId @ ''/retrigger'' in
      bind (auditLog (start_event endpointName endpoint req)) (\<lambda>_.
      bind (authorize req
              [orchestratorWorkflowUsePermission,
               orchestratorWorkflowUseSpecificPermission workflowId]
              (permissions env) (httpAuth env)) (\<lambda>decision.
      bind (deny_guard decision endpointName endpoint req) (\<lambda>_.
      try_catch
        (bind (data_access (RetriggerInstance workflowId instanceId)
                 (v2_retriggerInstance env workflowId instanceId)) (\<lambda>result.
         res_send 200 (Json result)))
        (on_error env endpointName endpoint req)))))"

definition getWorkflowOverviewById_handler :: "services \<Rightarrow> HttpRequest \<Rightarrow> unit prog" where
  "getWorkflowOverviewById_handler env req =
     (let workflowId = params_workflowId req;
          endpointName = ''getWorkflowOverviewById'';
          endpoint = ''/v2/workflows/'' @ workflowId @ ''/overview'' in
      bind (auditLog (start_event endpointName endpoint req)) (\<lambda>_.
      bind (authorize req
              [orchestratorWorkflowPermission, orchestratorWorkflowSpecificPermission workflowId]
              (permissions env) (httpAuth env)) (\<lambda>decision.
      bind (deny_guard decision endpointName endpoint req) (\<lambda>_.
      try_catch
        (bind (data_access (GetWorkflowOverviewById workflowId)
                 (v2_getWorkflowOverviewById env workflowId)) (\<lambda>result.
         res_send 200 (Json result)))
        (on_error env endpointName endpoint req)))))"

definition getWorkflowStatuses_handler :: "services \<Rightarrow> HttpRequest \<Rightarrow> unit prog" where
  "getWorkflowStatuses_handler env req =
     (let endpointName = ''getWorkflowStatuses'';
          endpoint = ''/v2/workflows/instances/statuses'' in
      bind (auditLog (start_event endpointName endpoint req)) (\<lambda>_.
      try_catch
        (bind (data_access GetWorkflowStatuses (v2_getWorkflowStatuses env ())) (\<lambda>result.
         res_send 200 (Json result)))
        (on_error env endpointName endpoint req)))"

text \<open>
  The data handed back with the schema: the keys of the schema's properties that the
  workflow data has with a truthy value.
\<close>

definition inputData_of :: "JsonValue \<Rightarrow> JsonObject \<Rightarrow> JsonObject" where
  "inputData_of inputSchemaProps workflowData =
     foldl (\<lambda>result k.
              if \<not> truthy (map_of workflowData k) then result
              else assign result k (the (map_of workflowData k)))
           []
           (filter (\<lambda>k. map_of workflowData k \<noteq> None) (Object_keys inputSchemaProps))"

definition getWorkflowInputSchemaById_handler :: "services \<Rightarrow> HttpRequest \<Rightarrow> unit prog" where
  "getWorkflowInputSchemaById_handler env req =
     (let workflowId = params_workflowId req;
          instanceId = query_instanceId req;
          endpointName = ''getWorkflowInputSchemaById'';
          endpoint = ''/v2/workflows/'' @ workflowId @ ''/inputSchema'' in
      try_catch
        (bind (auditLog (start_event endpointName endpoint req)) (\<lambda>_.
         bind (authorize req
                 [orchestratorWorkflowPermission,
                  orchestratorWorkflowSpecificPermission workflowId]
                 (permissions env) (httpAuth env)) (\<lambda>decision.
         bind (deny_guard decision endpointName endpoint req) (\<lambda>_.
         bind (data_access (FetchWorkflowInfo workflowId)
                 (orchestratorService_fetchWorkflowInfo env workflowId)) (\<lambda>workflowDefinition.
         case workflowDefinition of
           None \<Rightarrow>
             throw (Error (''Failed to fetch workflow info for workflow '' @ workflowId))
         | Some info \<Rightarrow>
         if \<not> truthy_string (serviceUrl info)
         then throw (Error (''Service URL is not defined for workflow '' @ workflowId))
         else
         bind (data_access (FetchWorkflowDefinition workflowId)
                 (orchestratorService_fetchWorkflowDefinition env workflowId)) (\<lambda>definition.
         case definition of
           None \<Rightarrow>
             throw (Error ''Failed to fetch workflow definition for workflow ${workflowId}'')
         | Some def \<Rightarrow>
         if \<not> truthy (dataInputSchema def) then res_send 200 (Json (JObj []))
         else
         bind (if truthy_string instanceId
               then data_access (FetchInstanceVariables (the instanceId))
                      (orchestratorService_fetchInstanceVariables env (the instanceId))
               else return None) (\<lambda>instanceVariables.
         let workflowData =
               (case instanceVariables of
                  Some vars \<Rightarrow> dataInputSchemaService_extractWorkflowData env vars
                | None \<Rightarrow> None) in
         bind (try_catch
                 (bind (data_access
                          (GetWorkflowInputSchemaById workflowId (the (serviceUrl info)))
                          (v2_getWorkflowInputSchemaById env workflowId (the (serviceUrl info))))
                       (\<lambda>r. return (Some r)))
                 (\<lambda>error.
                    bind (auditLogRequestError env error endpointName endpoint req) (\<lambda>_.
                    bind (res_send 500
                            (ErrorMessage
                               (if error_message error \<noteq> [] then error_message error
                                else INTERNAL_SERVER_ERROR_MESSAGE env))) (\<lambda>_.
                    return None)))) (\<lambda>workflowInfo.
         if workflowInfo = None
            \<or> \<not> truthy (inputSchema (the workflowInfo))
            \<or> \<not> truthy (json_get (the (inputSchema (the workflowInfo))) ''properties'')
         then res_send 200 (Json (JObj []))
         else
           let inputSchemaProps =
                 the (json_get (the (inputSchema (the workflowInfo))) ''properties'');
               inputData =
                 (case workflowData of
                    Some wd \<Rightarrow> Some (inputData_of inputSchemaProps wd)
                  | None \<Rightarrow> None) in
           res_send 200
             (SchemaAndData (the (inputSchema (the workflowInfo))) inputData)))))))))
        (on_error env endpointName endpoint req))"

definition getWorkflowInstances_handler :: "services \<Rightarrow> HttpRequest \<Rightarrow> unit prog" where
  "getWorkflowInstances_handler env req =
     (let endpointName = ''getWorkflowInstances'';
          workflowId = params_workflowId req;
          endpoint = ''/v2/workflows/'' @ workflowId @ ''/instances'' in
      bind (auditLog (start_event endpointName endpoint req)) (\<lambda>_.
      bind (authorize req
              [orchestratorWorkflowPermission, orchestratorWorkflowSpecificPermission workflowId]
              (permissions env) (httpAuth env)) (\<lambda>decision.
      bind (deny_guard decision endpointName endpoint req) (\<lambda>_.
      bind (await (buildPagination env req)) (\<lambda>pagination.
      try_catch
        (bind (data_access (GetInstances [workflowId])
                 (v2_getInstances env pagination (getRequestFilters req) [workflowId]))
              (\<lambda>result.
         res_send 200 (Json result)))
        (on_error env endpointName endpoint req))))))"

definition getInstances_handler :: "services \<Rightarrow> HttpRequest \<Rightarrow> unit prog" where
  "getInstances_handler env req =
     (let endpointName = ''getInstances'';
          endpoint = ''/v2/workflows/instances'' in
      bind (auditLog (start_event endpointName endpoint req)) (\<lambda>_.
      try_catch
        (bind (data_access GetWorkflowIds (v2_getWorkflowIds env ())) (\<lambda>allWorkflowIds.
         bind (filterAuthorizedWorkflowIds req (permissions env) (httpAuth env) allWorkflowIds)
              (\<lambda>authorizedWorkflowIds.
         bind (await (buildPagination env req)) (\<lambda>pagination.
         bind (data_access (GetInstances authorizedWorkflowIds)
                 (v2_getInstances env pagination (getRequestFilters req) authorizedWorkflowIds))
              (\<lambda>result.
         res_send 200 (Json result))))))
        (on_error env endpointName endpoint req)))"

definition getInstanceById_handler :: "services \<Rightarrow> HttpRequest \<Rightarrow> unit prog" where
  "getInstanceById_handler env req =
     (let instanceId = params_instanceId req;
          endpointName = ''getInstanceById'';
          endpoint = ''/v2/workflows/instances/'' @ instanceId in
      bind (auditLog (start_event endpointName endpoint req)) (\<lambda>_.
      let includeAssessment = v2_extractQueryParam env req QUERY_PARAM_INCLUDE_ASSESSMENT in
      try_catch
        (bind (data_access (GetInstanceById instanceId)
                 (v2_getInstanceById env instanceId (Some (truthy_string includeAssessment))))
              (\<lambda>assessedInstance.
         let workflowId = instance_processId assessedInstance in
         bind (authorize req
                 [orchestratorWorkflowPermission,
                  orchestratorWorkflowSpecificPermission workflowId]
                 (permissions env) (httpAuth env)) (\<lambda>decision.
         bind (deny_guard decision endpointName endpoint req) (\<lambda>_.
         res_send 200 (Instance assessedInstance)))))
        (on_error env endpointName endpoint req)))"

definition abortWorkflow_handler :: "services \<Rightarrow> HttpRequest \<Rightarrow> unit prog" where
  "abortWorkflow_handler env req =
     (let instanceId = params_instanceId req;
          endpointName = ''abortWorkflow'';
          endpoint = ''/v2/workflows/instances/'' @ instanceId @ ''/abort'' in
      bind (auditLog (start_event endpointName endpoint req)) (\<lambda>_.
      try_catch
        (bind (data_access (GetInstanceById instanceId)
                 (v2_getInstanceById env instanceId None)) (\<lambda>assessedInstance.
         let workflowId = instance_processId assessedInstance in
         bind (authorize req
                 [orchestratorWorkflowUsePermission,
                  orchestratorWorkflowUseSpecificPermission workflowId]
                 (permissions env) (httpAuth env)) (\<lambda>decision.
         bind (deny_guard decision endpointName endpoint req) (\<lambda>_.
         bind (data_access (AbortWorkflow workflowId instanceId)
                 (v2_abortWorkflow env workflowId instanceId)) (\<lambda>result.
         res_send 200 (Json result))))))
        (on_error env endpointName endpoint req)))"

subsection \<open>Dispatch\<close>

text \<open>The operations registered with the OpenAPI backend, and the handler of each.\<close>

datatype operation =
    getWorkflowsOverview
  | getWorkflowSourceById
  | executeWorkflow
  | retriggerInstance
  | getWorkflowOverviewById
  | getWorkflowStatuses
  | getWorkflowInputSchemaById
  | getWorkflowInstances
  | getInstances
  | getInstanceById
  | abortWorkflow

fun handleRequest :: "operation \<Rightarrow> services \<Rightarrow> HttpRequest \<Rightarrow> unit prog" where
  "handleRequest getWorkflowsOverview = getWorkflowsOverview_handler"
| "handleRequest getWorkflowSourceById = getWorkflowSourceById_handler"
| "handleRequest executeWorkflow = executeWorkflow_handler"
| "handleRequest retriggerInstance = retriggerInstance_handler"
| "handleRequest getWorkflowOverviewById = getWorkflowOverviewById_handler"
| "handleRequest getWorkflowStatuses = getWorkflowStatuses_handler"
| "handleRequest getWorkflowInputSchemaById = getWorkflowInputSchemaById_handler"
| "handleRequest getWorkflowInstances = getWorkflowInstances_handler"
| "handleRequest getInstances = getInstances_handler"
| "handleRequest getInstanceById = getInstanceById_handler"
| "handleRequest abortWorkflow = abortWorkflow_handler"

text \<open>
  \<^verbatim>\<open>error.message || error.name || error\<close>; an error with neither has the empty text
  in the model.
\<close>

definition error_text :: "error \<Rightarrow> string" where
  "error_text error =
     (if error_message error \<noteq> [] then error_message error else error_name error)"

text \<open>
  The middleware of the router: the handler of the operation runs, and an error it
  rejects with is audited and passed to \<open>next\<close>.
\<close>

definition router_middleware :: "operation \<Rightarrow> services \<Rightarrow> HttpRequest \<Rightarrow> unit prog" where
  "router_middleware op env req =
     try_catch (handleRequest op env req)
       (\<lambda>error.
          bind (auditLog
                 \<lparr>eventName = ''genericErrorHandler'', stage = ''completion'',
                  status = ''failed'', level = ''error'', audit_request = req,
                  response = None, errors = [error],
                  message = ''Exception thrown during processing request '' @ path req
                            @ '' , '' @ error_text error\<rparr>)
               (\<lambda>_. next_error error))"

text \<open>
  The status the client receives: the one of the first response a handler sends, or the
  one the error middleware of the transport gives the error passed to \<open>next\<close>. The error
  middleware belongs to the backend framework and is a parameter.
\<close>

fun http_status :: "(error \<Rightarrow> nat) \<Rightarrow> event list \<Rightarrow> nat option" where
  "http_status error_middleware [] = None"
| "http_status error_middleware (Response code b # evs) = Some code"
| "http_status error_middleware (Next e # evs) = Some (error_middleware e)"
| "http_status error_middleware (ev # evs) = http_status error_middleware evs"

subsection \<open>Properties of a trace\<close>



fun is_permission_evaluation :: "event \<Rightarrow> bool" where
  "is_permission_evaluation (PermissionsAuthorize rs) = True"
| "is_permission_evaluation ev = False"




fun is_failed_audit :: "event \<Rightarrow> bool" where
  "is_failed_audit (Audit a) = (status a = ''failed'')"
| "is_failed_audit ev = False"



text \<open>
  A completion event with status \<open>failed\<close> that carries the error \<open>e\<close>.
\<close>

fun is_failed_completion :: "error \<Rightarrow> event \<Rightarrow> bool" where
  "is_failed_completion e (Audit a) =
     (stage a = ''completion'' \<and> status a = ''failed'' \<and> errors a = [e])"
| "is_failed_completion e ev = False"


fun is_abort :: "event \<Rightarrow> bool" where
  "is_abort (DataAccess (AbortWorkflow w i)) = True"
| "is_abort ev = False"

fun is_fetchInstanceVariables :: "event \<Rightarrow> bool" where
  "is_fetchInstanceVariables (DataAccess (FetchInstanceVariables i)) = True"
| "is_fetchInstanceVariables ev = False"

text \<open>
  The audit events of a denial, of a failed request and of the router's error handler,
  by name.
\<close>

definition denied_event :: "string \<Rightarrow> string \<Rightarrow> HttpRequest \<Rightarrow> AuditEvent" where
  "denied_event endpointName endpoint req =
     \<lparr>eventName = endpointName @ ''EndpointHit'', stage = ''authorization'',
      status = ''failed'', level = ''error'', audit_request = req,
      response = Some \<lparr>status_code = 403,
                       body_errors = [(error_name UnauthorizedError,
                                       error_message UnauthorizedError)]\<rparr>,
      errors = [UnauthorizedError],
      message = ''Not authorize to request the '' @ endpoint @ '' endpoint''\<rparr>"

definition failed_event ::
  "services \<Rightarrow> error \<Rightarrow> string \<Rightarrow> string \<Rightarrow> HttpRequest \<Rightarrow> AuditEvent" where
  "failed_event env error endpointName endpoint req =
     \<lparr>eventName = endpointName @ ''EndpointHit'', stage = ''completion'',
      status = ''failed'', level = ''error'', audit_request = req,
      response = Some \<lparr>status_code = 500,
                       body_errors =
                         [(error_name error,
                           if error_message error \<noteq> [] then error_message error
                           else INTERNAL_SERVER_ERROR_MESSAGE env)]\<rparr>,
      errors = [error],
      message = ''Error occured while requesting the '' @ quoted endpoint @ '' endpoint''\<rparr>"

definition generic_event :: "HttpRequest \<Rightarrow> error \<Rightarrow> AuditEvent" where
  "generic_event req error =
     \<lparr>eventName = ''genericErrorHandler'', stage = ''completion'',
      status = ''failed'', level = ''error'', audit_request = req,
      response = None, errors = [error],
      message = ''Exception thrown during processing request '' @ path req
                @ '' , '' @ error_text error\<rparr>"

text \<open>
  The gate of each operation: the workflow a request is authorized for, when its handler
  reaches the gate, and the candidate permissions the handler hands to \<open>authorize\<close>.
  The handlers of getInstanceById and abortWorkflow take the workflow from the instance
  they read; getWorkflowsOverview, getWorkflowStatuses and getInstances have no gate.
\<close>

fun gated_workflow :: "operation \<Rightarrow> services \<Rightarrow> HttpRequest \<Rightarrow> string option" where
  "gated_workflow getWorkflowSourceById env req = Some (params_workflowId req)"
| "gated_workflow executeWorkflow env req = Some (params_workflowId req)"
| "gated_workflow retriggerInstance env req = Some (params_workflowId req)"
| "gated_workflow getWorkflowOverviewById env req = Some (params_workflowId req)"
| "gated_workflow getWorkflowInputSchemaById env req = Some (params_workflowId req)"
| "gated_workflow getWorkflowInstances env req = Some (params_workflowId req)"
| "gated_workflow getInstanceById env req =
     (case v2_getInstanceById env (params_instanceId req)
             (Some (truthy_string (v2_extractQueryParam env req QUERY_PARAM_INCLUDE_ASSESSMENT)))
      of Inl e \<Rightarrow> None | Inr assessedInstance \<Rightarrow> Some (instance_processId assessedInstance))"
| "gated_workflow abortWorkflow env req =
     (case v2_getInstanceById env (params_instanceId req) None
      of Inl e \<Rightarrow> None | Inr assessedInstance \<Rightarrow> Some (instance_processId assessedInstance))"
| "gated_workflow op env req = None"

fun gate_permissions :: "operation \<Rightarrow> string \<Rightarrow> BasicPermission list" where
  "gate_permissions executeWorkflow w =
     [orchestratorWorkflowUsePermission, orchestratorWorkflowUseSpecificPermission w]"
| "gate_permissions retriggerInstance w =
     [orchestratorWorkflowUsePermission, orchestratorWorkflowUseSpecificPermission w]"
| "gate_permissions abortWorkflow w =
     [orchestratorWorkflowUsePermission, orchestratorWorkflowUseSpecificPermission w]"
| "gate_permissions op w =
     [orchestratorWorkflowPermission, orchestratorWorkflowSpecificPermission w]"

text \<open>
  The error \<open>e\<close> is audited as a failed completion and passed to \<open>next\<close> after that.
\<close>

fun audited_then_rejected :: "error \<Rightarrow> event list \<Rightarrow> bool" where
  "audited_then_rejected e [] = False"
| "audited_then_rejected e (ev # evs) =
     ((is_failed_completion e ev \<and> Next e \<in> set evs) \<or> audited_then_rejected e evs)"

fun is_response :: "event \<Rightarrow> bool" where
  "is_response (Response code b) = True"
| "is_response ev = False"




subsection \<open>An example deployment\<close>

text \<open>
  A permission service that decides by a table of grants, and services that answer every
  call: two workflows in the overview, every instance owned by \<open>wf-X\<close>, definitions
  without an input schema.
\<close>

fun scope_of :: "BasicPermission \<Rightarrow> string" where
  "scope_of (orchestratorWorkflowSpecificPermission w) = w"
| "scope_of (orchestratorWorkflowUseSpecificPermission w) = w"
| "scope_of p = ''any''"

definition example_permissions :: "(BasicPermission \<Rightarrow> bool) \<Rightarrow> PermissionsService" where
  "example_permissions granted requests credentials =
     Inr (map (\<lambda>r. \<lparr>result = (if granted (permission r) then ALLOW else DENY),
                     properties = [(''scope'', scope_of (permission r))]\<rparr>) requests)"

definition example_services :: "(BasicPermission \<Rightarrow> bool) \<Rightarrow> services" where
  "example_services granted =
     \<lparr>permissions = example_permissions granted,
      httpAuth = (\<lambda>req. Inr ''user:default/guest''),
      buildPagination = (\<lambda>req. Inr JNull),
      INTERNAL_SERVER_ERROR_MESSAGE = ''internal server error'',
      v2_getWorkflowsOverview =
        (\<lambda>pagination filters.
           Inr \<lparr>overviews = Some [\<lparr>workflowId = ''wf-A'', overview_data = JNull\<rparr>,
                                   \<lparr>workflowId = ''wf-B'', overview_data = JNull\<rparr>],
                paginationInfo = None\<rparr>),
      v2_getWorkflowSourceById = (\<lambda>w. Inr ''id: wf''),
      v2_executeWorkflow = (\<lambda>input w businessKey. Inr (JObj [(''id'', JStr ''i1'')])),
      v2_retriggerInstance = (\<lambda>w i. Inr JNull),
      v2_getWorkflowOverviewById = (\<lambda>w. Inr (JObj [(''workflowId'', JStr w)])),
      v2_getWorkflowStatuses = (\<lambda>u. Inr (JArr [JStr ''ACTIVE'', JStr ''ABORTED''])),
      v2_getWorkflowInputSchemaById = (\<lambda>w url. Inr \<lparr>inputSchema = None\<rparr>),
      v2_getInstances = (\<lambda>pagination filters ws. Inr (JArr [])),
      v2_getWorkflowIds = (\<lambda>u. Inr [''wf-A'', ''wf-B'']),
      v2_getInstanceById =
        (\<lambda>i includeAssessment. Inr \<lparr>instance_processId = ''wf-X'', instance_data = JStr i\<rparr>),
      v2_abortWorkflow = (\<lambda>w i. Inr JNull),
      v2_extractQueryParam = (\<lambda>req k. None),
      orchestratorService_fetchWorkflowInfo =
        (\<lambda>w. Inr (Some \<lparr>serviceUrl = Some ''http://sonataflow''\<rparr>)),
      orchestratorService_fetchWorkflowDefinition =
        (\<lambda>w. Inr (Some \<lparr>dataInputSchema = None\<rparr>)),
      orchestratorService_fetchInstanceVariables = (\<lambda>i. Inr (Some [])),
      dataInputSchemaService_extractWorkflowData = (\<lambda>vars. Some vars)\<rparr>"

definition example_request :: HttpRequest where
  "example_request =
     \<lparr>path = ''/v2/workflows/instances/i1/abort'', params_workflowId = ''wf-X'',
      params_instanceId = ''i1'', query_instanceId = Some ''i1'', body = JObj []\<rparr>"

text \<open>A permission service that is down for the batches \<open>fails\<close> picks.\<close>

definition unavailable_for ::
  "(AuthorizePermissionRequest list \<Rightarrow> bool) \<Rightarrow> (BasicPermission \<Rightarrow> bool) \<Rightarrow> PermissionsService" where
  "unavailable_for fails granted requests credentials =
     (if fails requests then Inl (Rejected ''ServiceUnavailableError'' ''permission backend is down'')
      else example_permissions granted requests credentials)"

section \<open>The permission gate\<close>

subsection \<open>Running a program: the trace and the outcome\<close>

lemma fst_bind: "fst (bind m f) = fst m @ (case snd m of Inl e \<Rightarrow> [] | Inr x \<Rightarrow> fst (f x))"
  by (simp add: bind_def split: sum.splits)

lemma snd_bind: "snd (bind m f) = (case snd m of Inl e \<Rightarrow> Inl e | Inr x \<Rightarrow> snd (f x))"
  by (simp add: bind_def split: sum.splits)

lemma fst_try_catch:
  "fst (try_catch m h) = fst m @ (case snd m of Inl e \<Rightarrow> fst (h e) | Inr x \<Rightarrow> [])"
  by (simp add: try_catch_def split: sum.splits)

lemma snd_try_catch:
  "snd (try_catch m h) = (case snd m of Inl e \<Rightarrow> snd (h e) | Inr x \<Rightarrow> Inr x)"
  by (simp add: try_catch_def split: sum.splits)

lemma prim_simps:
  "fst (emit ev) = [ev]" "snd (emit ev) = Inr ()"
  "fst (return x) = []" "snd (return x) = Inr x"
  "fst (throw e) = []" "snd (throw e) = Inl e"
  "fst (await r) = []" "snd (await r) = r"
  "fst (data_access c r) = [DataAccess c]" "snd (data_access c r) = r"
  by (simp_all add: emit_def return_def throw_def await_def data_access_def)

lemma manageDenyAuthorization_run:
  "manageDenyAuthorization endpointName endpoint req =
     ([Audit (denied_event endpointName endpoint req)], Inl UnauthorizedError)"
  by (simp add: manageDenyAuthorization_def denied_event_def bind_def auditLog_def emit_def
      throw_def Let_def)

lemma deny_guard_run:
  "deny_guard decision endpointName endpoint req =
     (if result decision = DENY
      then ([Audit (denied_event endpointName endpoint req)], Inl UnauthorizedError)
      else ([], Inr ()))"
  by (simp add: deny_guard_def manageDenyAuthorization_run return_def)

lemma auditLogRequestError_run:
  "auditLogRequestError env error endpointName endpoint req =
     ([LoggerError endpoint error, Audit (failed_event env error endpointName endpoint req)],
      Inr ())"
  by (simp add: auditLogRequestError_def failed_event_def bind_def auditLog_def emit_def
      logger_error_def)

lemma on_error_run:
  "on_error env endpointName endpoint req error =
     ([LoggerError endpoint error, Audit (failed_event env error endpointName endpoint req),
       Next error], Inr ())"
  by (simp add: on_error_def auditLogRequestError_run bind_def next_error_def emit_def)

lemma router_middleware_run:
  "router_middleware op env req =
     (case snd (handleRequest op env req) of
        Inl error \<Rightarrow>
          (fst (handleRequest op env req) @ [Audit (generic_event req error), Next error],
           Inr ())
      | Inr u \<Rightarrow> handleRequest op env req)"
  by (simp add: router_middleware_def generic_event_def try_catch_def bind_def auditLog_def
      emit_def next_error_def split: sum.splits)

lemma fst_router_middleware:
  "fst (router_middleware op env req) =
     fst (handleRequest op env req) @
     (case snd (handleRequest op env req) of
        Inl error \<Rightarrow> [Audit (generic_event req error), Next error]
      | Inr u \<Rightarrow> [])"
  by (simp add: router_middleware_run split: sum.splits)

lemma event_simps:
  "stage (start_event n e r) = ''start''" "status (start_event n e r) = ''succeeded''"
  "stage (denied_event n e r) = ''authorization''" "status (denied_event n e r) = ''failed''"
  "errors (denied_event n e r) = [UnauthorizedError]"
  "stage (failed_event env x n e r) = ''completion''"
  "status (failed_event env x n e r) = ''failed''"
  "errors (failed_event env x n e r) = [x]"
  "stage (generic_event r x) = ''completion''" "status (generic_event r x) = ''failed''"
  "errors (generic_event r x) = [x]"
  by (simp_all add: start_event_def denied_event_def failed_event_def generic_event_def)

lemmas run_simps = fst_bind snd_bind fst_try_catch snd_try_catch prim_simps
  auditLog_def res_send_def deny_guard_run on_error_run auditLogRequestError_run
  fst_router_middleware event_simps Let_def


subsection \<open>What \<open>authorize\<close> and the filters compute\<close>

lemma authorize_unfold:
  assumes "auth req = Inr c"
  shows "authorize req ps svc auth =
    (map (\<lambda>p. PermissionsAuthorize [\<lparr>permission = p\<rparr>]) ps,
     case all_settled (map (\<lambda>p. svc [\<lparr>permission = p\<rparr>] c) ps) of
       Inl e \<Rightarrow> Inl e
     | Inr rs \<Rightarrow>
        (case find_ALLOW (map first_decision rs) of
           Inl e \<Rightarrow> Inl e
         | Inr a \<Rightarrow> Inr (case a of Some d \<Rightarrow> d | None \<Rightarrow> \<lparr>result = DENY, properties = []\<rparr>)))"
  using assms
  by (simp add: authorize_def Promise_all_def bind_def
      permissionsSvc_authorize_def comp_def await_def return_def Let_def split: sum.splits)

lemma all_settled_Inr:
  "\<forall>x \<in> set xs. f x = Inr (g x) \<Longrightarrow> all_settled (map f xs) = Inr (map g xs)"
  by (induction xs) auto

lemma find_ALLOW_Some:
  "find_ALLOW (map Some ds) = Inr (find (\<lambda>d. result d = ALLOW) ds)"
  by (induction ds) auto

lemma all_settled_Inl_iff:
  "(\<exists>e. all_settled rs = Inl e) \<longleftrightarrow> (\<exists>e. Inl e \<in> set rs)"
  by (induction rs rule: all_settled.induct) (auto split: sum.splits)

lemma all_settled_Inl_mem:
  "all_settled rs = Inl e \<Longrightarrow> Inl e \<in> set rs"
  by (induction rs rule: all_settled.induct) (auto split: sum.splits)

lemma filterAuthorizedWorkflowIds_unfold:
  assumes "auth req = Inr c"
  shows "filterAuthorizedWorkflowIds req svc auth ws =
    (case svc [\<lparr>permission = orchestratorWorkflowPermission\<rparr>] c of
       Inl e \<Rightarrow> ([PermissionsAuthorize [\<lparr>permission = orchestratorWorkflowPermission\<rparr>]], Inl e)
     | Inr [] \<Rightarrow> ([PermissionsAuthorize [\<lparr>permission = orchestratorWorkflowPermission\<rparr>]], Inl TypeError)
     | Inr (d # ds) \<Rightarrow>
         if result d = ALLOW
         then ([PermissionsAuthorize [\<lparr>permission = orchestratorWorkflowPermission\<rparr>]], Inr ws)
         else
           ([PermissionsAuthorize [\<lparr>permission = orchestratorWorkflowPermission\<rparr>],
             PermissionsAuthorize
               (map (\<lambda>w. \<lparr>permission = orchestratorWorkflowSpecificPermission w\<rparr>) ws)],
            case svc (map (\<lambda>w. \<lparr>permission = orchestratorWorkflowSpecificPermission w\<rparr>) ws) c of
              Inl e \<Rightarrow> Inl e
            | Inr decisions \<Rightarrow> filter_by_decisions ws decisions))"
  using assms
  by (simp add: filterAuthorizedWorkflowIds_def bind_def permissionsSvc_authorize_def
      throw_def return_def await_def Let_def split: sum.splits list.splits)

lemma filter_by_decisions_granted:
  "length ds = length W \<Longrightarrow>
   \<forall>i < length W. (result (ds ! i) = ALLOW) = (W ! i \<in> S) \<Longrightarrow>
   filter_by_decisions W ds = Inr (filter (\<lambda>w. w \<in> S) W)"
proof (induction W ds rule: filter_by_decisions.induct)
  case (1 ds)
  then show ?case by simp
next
  case (2 w ws)
  then show ?case by simp
next
  case (3 w ws d ds)
  from 3(3) have tl: "\<forall>i < length ws. (result (ds ! i) = ALLOW) = (ws ! i \<in> S)"
    by (metis Suc_less_eq length_Cons nth_Cons_Suc)
  from 3(3) have hd: "(result d = ALLOW) = (w \<in> S)"
    by (metis length_Cons nth_Cons_0 zero_less_Suc)
  from 3(2) have "length ds = length ws" by simp
  with 3(1) tl have "filter_by_decisions ws ds = Inr (filter (\<lambda>w. w \<in> S) ws)" by simp
  with hd show ?case by simp
qed

subsection \<open>Any-of authorization\<close>

text \<open>
  Claim C1. When the credentials are read and the permission service answers every
  candidate, \<open>authorize\<close> asks the service once per candidate, each in a call of its own
  and in the order of the list, and resolves to a decision that is ALLOW exactly when the
  decision of some candidate is ALLOW and DENY exactly when the decision of every
  candidate is DENY; the decision it returns is the one of the first candidate that
  allows.
\<close>

theorem authorize_any_of:
  assumes creds: "auth req = Inr c"
    and svc: "\<forall>p \<in> set ps. \<exists>ds. svc [\<lparr>permission = p\<rparr>] c = Inr (decision p # ds)"
  shows "\<exists>d. authorize req ps svc auth =
           (map (\<lambda>p. PermissionsAuthorize [\<lparr>permission = p\<rparr>]) ps, Inr d)
       \<and> (result d = ALLOW \<longleftrightarrow> (\<exists>p \<in> set ps. result (decision p) = ALLOW))
       \<and> (result d = DENY \<longleftrightarrow> (\<forall>p \<in> set ps. result (decision p) = DENY))
       \<and> (\<forall>i < length ps. result (decision (ps ! i)) = ALLOW
              \<and> (\<forall>j < i. result (decision (ps ! j)) \<noteq> ALLOW) \<longrightarrow> d = decision (ps ! i))"
proof -
  define rest where "rest p = (SOME ds. svc [\<lparr>permission = p\<rparr>] c = Inr (decision p # ds))" for p
  have r: "\<forall>p \<in> set ps. svc [\<lparr>permission = p\<rparr>] c = Inr (decision p # rest p)"
    using svc unfolding rest_def by (auto intro: someI_ex)
  have a: "all_settled (map (\<lambda>p. svc [\<lparr>permission = p\<rparr>] c) ps)
             = Inr (map (\<lambda>p. decision p # rest p) ps)"
    using r by (rule all_settled_Inr)
  have f: "map first_decision (map (\<lambda>p. decision p # rest p) ps) = map Some (map decision ps)"
    by simp
  let ?d = "case find (\<lambda>d. result d = ALLOW) (map decision ps) of
              Some d \<Rightarrow> d | None \<Rightarrow> \<lparr>result = DENY, properties = []\<rparr>"
  have eq: "authorize req ps svc auth =
           (map (\<lambda>p. PermissionsAuthorize [\<lparr>permission = p\<rparr>]) ps, Inr ?d)"
    by (simp only: authorize_unfold [where auth = auth and req = req, OF creds]
          a f find_ALLOW_Some sum.case)
  have allow: "result ?d = ALLOW \<longleftrightarrow> (\<exists>p \<in> set ps. result (decision p) = ALLOW)"
    by (induction ps) simp_all
  have deny: "result ?d = DENY \<longleftrightarrow> (\<forall>p \<in> set ps. result (decision p) = DENY)"
  proof -
    have "\<And>r. r = DENY \<longleftrightarrow> r \<noteq> ALLOW" by (case_tac r) simp_all
    with allow show ?thesis by simp
  qed
  have first: "\<forall>i < length ps. result (decision (ps ! i)) = ALLOW
              \<and> (\<forall>j < i. result (decision (ps ! j)) \<noteq> ALLOW) \<longrightarrow> ?d = decision (ps ! i)"
  proof (induction ps)
    case Nil
    then show ?case by simp
  next
    case (Cons p ps)
    show ?case
    proof (intro allI impI)
      fix i assume i: "i < length (p # ps)"
        and h: "result (decision ((p # ps) ! i)) = ALLOW \<and>
                (\<forall>j<i. result (decision ((p # ps) ! j)) \<noteq> ALLOW)"
      show "(case find (\<lambda>d. result d = ALLOW) (map decision (p # ps)) of
              Some d \<Rightarrow> d | None \<Rightarrow> \<lparr>result = DENY, properties = []\<rparr>) = decision ((p # ps) ! i)"
      proof (cases i)
        case 0
        with h show ?thesis by simp
      next
        case (Suc k)
        with h have p: "result (decision p) \<noteq> ALLOW" by auto
        from Suc h have "\<forall>j<k. result (decision (ps ! j)) \<noteq> ALLOW" by auto
        with Suc h i Cons.IH p show ?thesis by simp
      qed
    qed
  qed
  show ?thesis
    apply (rule exI [where x = ?d])
    apply (intro conjI)
       apply (rule eq)
      apply (rule allow)
     apply (rule deny)
    apply (rule first)
    done
qed

text \<open>
  At a caller who holds the grant for \<open>wf-A\<close> alone, and then also the generic one: the
  decision handed back is the one of the first candidate that allows.
\<close>

theorem authorize_any_of_witness:
  "authorize example_request
     [orchestratorWorkflowPermission, orchestratorWorkflowSpecificPermission ''wf-A'',
      orchestratorWorkflowSpecificPermission ''wf-B'']
     (example_permissions (\<lambda>p. p \<noteq> orchestratorWorkflowPermission))
     (\<lambda>req. Inr ''user:default/guest'')
   = ([PermissionsAuthorize [\<lparr>permission = orchestratorWorkflowPermission\<rparr>],
       PermissionsAuthorize [\<lparr>permission = orchestratorWorkflowSpecificPermission ''wf-A''\<rparr>],
       PermissionsAuthorize [\<lparr>permission = orchestratorWorkflowSpecificPermission ''wf-B''\<rparr>]],
      Inr \<lparr>result = ALLOW, properties = [(''scope'', ''wf-A'')]\<rparr>)"
proof -
  let ?g = "\<lambda>p. p \<noteq> orchestratorWorkflowPermission"
  let ?ps = "[orchestratorWorkflowPermission, orchestratorWorkflowSpecificPermission ''wf-A'',
              orchestratorWorkflowSpecificPermission ''wf-B'']"
  let ?dec = "\<lambda>p. \<lparr>result = (if ?g p then ALLOW else DENY),
                    properties = [(''scope'', scope_of p)]\<rparr>"
  let ?auth = "\<lambda>req :: HttpRequest. (Inr ''user:default/guest'' :: error + credentials)"
  have h1: "?auth example_request = Inr ''user:default/guest''" by simp
  have h2: "\<forall>p \<in> set ?ps. \<exists>ds. example_permissions ?g [\<lparr>permission = p\<rparr>] ''user:default/guest''
              = Inr (?dec p # ds)"
    by (simp add: example_permissions_def)
  from authorize_any_of
         [where auth = ?auth and req = example_request and decision = ?dec
            and c = "''user:default/guest''" and ps = ?ps
            and svc = "example_permissions ?g", OF h1 h2]
  obtain d where eq: "authorize example_request ?ps (example_permissions ?g) ?auth =
           (map (\<lambda>p. PermissionsAuthorize [\<lparr>permission = p\<rparr>]) ?ps, Inr d)"
    and first: "\<forall>i < length ?ps. result (?dec (?ps ! i)) = ALLOW
              \<and> (\<forall>j < i. result (?dec (?ps ! j)) \<noteq> ALLOW) \<longrightarrow> d = ?dec (?ps ! i)"
    by blast
  have "d = \<lparr>result = ALLOW, properties = [(''scope'', ''wf-A'')]\<rparr>"
    using first by (elim allE [where x = "Suc 0"]) simp
  with eq show ?thesis by simp
qed

subsection \<open>Filtering workflow ids\<close>

text \<open>
  Claim C2. For a caller whose credentials are granted the generic workflow permission,
  \<open>filterAuthorizedWorkflowIds\<close> returns the ids it was given, unchanged, and the only
  call of the permission service is the one for the generic permission.
\<close>

theorem filterAuthorizedWorkflowIds_generic:
  assumes "auth req = Inr c"
    and "svc [\<lparr>permission = orchestratorWorkflowPermission\<rparr>] c = Inr (d # ds)"
    and "result d = ALLOW"
  shows "filterAuthorizedWorkflowIds req svc auth W =
           ([PermissionsAuthorize [\<lparr>permission = orchestratorWorkflowPermission\<rparr>]], Inr W)"
  using assms by (simp add: filterAuthorizedWorkflowIds_unfold)

theorem filterAuthorizedWorkflowIds_generic_witness:
  "filterAuthorizedWorkflowIds example_request
     (example_permissions (\<lambda>p. p = orchestratorWorkflowPermission))
     (\<lambda>req. Inr ''user:default/guest'') [''wf-B'', ''wf-A'', ''wf-B'']
   = ([PermissionsAuthorize [\<lparr>permission = orchestratorWorkflowPermission\<rparr>]],
      Inr [''wf-B'', ''wf-A'', ''wf-B''])"
  using filterAuthorizedWorkflowIds_generic
    [where auth = "\<lambda>req. Inr ''user:default/guest''" and req = example_request
       and c = "''user:default/guest''"
       and svc = "example_permissions (\<lambda>p. p = orchestratorWorkflowPermission)"
       and d = "\<lparr>result = ALLOW, properties = [(''scope'', ''any'')]\<rparr>" and ds = "[]"
       and W = "[''wf-B'', ''wf-A'', ''wf-B'']"]
  by (simp add: example_permissions_def)

text \<open>
  Claim C3. For a caller whose generic workflow permission is denied and whose specific
  grants are those of the ids in \<open>S\<close>, \<open>filterAuthorizedWorkflowIds\<close> makes, after the
  generic call, one call of the permission service that holds a specific-permission
  request for every id of \<open>W\<close>, in order, and returns the ids of \<open>W\<close> that are in \<open>S\<close>,
  in the order of \<open>W\<close>.
\<close>

theorem filterAuthorizedWorkflowIds_specific:
  assumes "auth req = Inr c"
    and "svc [\<lparr>permission = orchestratorWorkflowPermission\<rparr>] c = Inr (g # gs)"
    and "result g = DENY"
    and "svc (map (\<lambda>w. \<lparr>permission = orchestratorWorkflowSpecificPermission w\<rparr>) W) c = Inr ds"
    and "length ds = length W"
    and "\<forall>i < length W. (result (ds ! i) = ALLOW) = (W ! i \<in> S)"
  shows "filterAuthorizedWorkflowIds req svc auth W =
           ([PermissionsAuthorize [\<lparr>permission = orchestratorWorkflowPermission\<rparr>],
             PermissionsAuthorize
               (map (\<lambda>w. \<lparr>permission = orchestratorWorkflowSpecificPermission w\<rparr>) W)],
            Inr (filter (\<lambda>w. w \<in> S) W))"
  using assms by (simp add: filterAuthorizedWorkflowIds_unfold filter_by_decisions_granted)

theorem filterAuthorizedWorkflowIds_specific_witness:
  "filterAuthorizedWorkflowIds example_request
     (example_permissions (\<lambda>p. p = orchestratorWorkflowSpecificPermission ''wf-A''
                               \<or> p = orchestratorWorkflowSpecificPermission ''wf-C''))
     (\<lambda>req. Inr ''user:default/guest'') [''wf-C'', ''wf-B'', ''wf-A'']
   = ([PermissionsAuthorize [\<lparr>permission = orchestratorWorkflowPermission\<rparr>],
       PermissionsAuthorize
         [\<lparr>permission = orchestratorWorkflowSpecificPermission ''wf-C''\<rparr>,
          \<lparr>permission = orchestratorWorkflowSpecificPermission ''wf-B''\<rparr>,
          \<lparr>permission = orchestratorWorkflowSpecificPermission ''wf-A''\<rparr>]],
      Inr [''wf-C'', ''wf-A''])"
proof -
  let ?g = "\<lambda>p. p = orchestratorWorkflowSpecificPermission ''wf-A''
               \<or> p = orchestratorWorkflowSpecificPermission ''wf-C''"
  let ?W = "[''wf-C'', ''wf-B'', ''wf-A'']"
  let ?ds = "[\<lparr>result = ALLOW, properties = [(''scope'', ''wf-C'')]\<rparr>,
              \<lparr>result = DENY, properties = [(''scope'', ''wf-B'')]\<rparr>,
              \<lparr>result = ALLOW, properties = [(''scope'', ''wf-A'')]\<rparr>]"
  have h4: "example_permissions ?g
              (map (\<lambda>w. \<lparr>permission = orchestratorWorkflowSpecificPermission w\<rparr>) ?W)
              ''user:default/guest'' = Inr ?ds"
    by (simp add: example_permissions_def)
  have h6: "\<forall>i < length ?W. (result (?ds ! i) = ALLOW) = (?W ! i \<in> {''wf-A'', ''wf-C''})"
    by (simp add: nth_Cons' All_less_Suc)
  show ?thesis
    using filterAuthorizedWorkflowIds_specific
      [where auth = "\<lambda>req. Inr ''user:default/guest''" and req = example_request
         and c = "''user:default/guest''" and svc = "example_permissions ?g"
         and g = "\<lparr>result = DENY, properties = [(''scope'', ''any'')]\<rparr>" and gs = "[]"
         and W = ?W and ds = ?ds and S = "{''wf-A'', ''wf-C''}", OF _ _ _ h4 _ h6]
    by (simp add: example_permissions_def)
qed

subsection \<open>Failures of the permission service\<close>

text \<open>
  Claim C9. When a call of the permission service fails, \<open>authorize\<close> rejects with an
  error the service failed with, whatever the other candidates decide, and
  \<open>filterAuthorizedWorkflowIds\<close> rejects with the error of the generic call, or with the
  error of the batched call when the generic permission was denied: a failure never
  becomes a decision.
\<close>

theorem permission_failure_propagates:
  assumes creds: "auth req = Inr c"
  shows "((\<exists>p \<in> set ps. \<exists>e. svc [\<lparr>permission = p\<rparr>] c = Inl e) \<longrightarrow>
            (\<exists>e. snd (authorize req ps svc auth) = Inl e
               \<and> (\<exists>p \<in> set ps. svc [\<lparr>permission = p\<rparr>] c = Inl e)))
       \<and> (svc [\<lparr>permission = orchestratorWorkflowPermission\<rparr>] c = Inl e1 \<longrightarrow>
            snd (filterAuthorizedWorkflowIds req svc auth W) = Inl e1)
       \<and> (svc [\<lparr>permission = orchestratorWorkflowPermission\<rparr>] c = Inr (g # gs) \<and> result g = DENY
            \<and> svc (map (\<lambda>w. \<lparr>permission = orchestratorWorkflowSpecificPermission w\<rparr>) W) c = Inl e2 \<longrightarrow>
            snd (filterAuthorizedWorkflowIds req svc auth W) = Inl e2)"
proof (intro conjI impI)
  assume "\<exists>p \<in> set ps. \<exists>e. svc [\<lparr>permission = p\<rparr>] c = Inl e"
  then have "\<exists>e. Inl e \<in> set (map (\<lambda>p. svc [\<lparr>permission = p\<rparr>] c) ps)"
    by (metis (mono_tags, lifting) image_eqI list.set_map)
  then obtain e where e: "all_settled (map (\<lambda>p. svc [\<lparr>permission = p\<rparr>] c) ps) = Inl e"
    using all_settled_Inl_iff by blast
  then have "Inl e \<in> set (map (\<lambda>p. svc [\<lparr>permission = p\<rparr>] c) ps)"
    by (rule all_settled_Inl_mem)
  then have m: "\<exists>p \<in> set ps. svc [\<lparr>permission = p\<rparr>] c = Inl e" by auto
  have "snd (authorize req ps svc auth) = Inl e"
    by (simp add: authorize_unfold [where auth = auth and req = req, OF creds] e)
  with m show "\<exists>e. snd (authorize req ps svc auth) = Inl e
               \<and> (\<exists>p \<in> set ps. svc [\<lparr>permission = p\<rparr>] c = Inl e)" by blast
next
  assume "svc [\<lparr>permission = orchestratorWorkflowPermission\<rparr>] c = Inl e1"
  then show "snd (filterAuthorizedWorkflowIds req svc auth W) = Inl e1"
    by (simp add: filterAuthorizedWorkflowIds_unfold [where auth = auth and req = req, OF creds])
next
  assume "svc [\<lparr>permission = orchestratorWorkflowPermission\<rparr>] c = Inr (g # gs) \<and> result g = DENY
            \<and> svc (map (\<lambda>w. \<lparr>permission = orchestratorWorkflowSpecificPermission w\<rparr>) W) c = Inl e2"
  then show "snd (filterAuthorizedWorkflowIds req svc auth W) = Inl e2"
    by (simp add: filterAuthorizedWorkflowIds_unfold [where auth = auth and req = req, OF creds])
qed

text \<open>
  A service that is down for the specific permission while the generic one is granted;
  one that is down for the generic permission; one that denies the generic permission
  and is down for the batch.
\<close>

theorem permission_failure_propagates_witness:
  "snd (authorize example_request
          [orchestratorWorkflowPermission, orchestratorWorkflowSpecificPermission ''wf-A'']
          (unavailable_for (\<lambda>rs. rs = [\<lparr>permission = orchestratorWorkflowSpecificPermission ''wf-A''\<rparr>])
             (\<lambda>p. True))
          (\<lambda>req. Inr ''user:default/guest''))
     = Inl (Rejected ''ServiceUnavailableError'' ''permission backend is down'')
   \<and> snd (filterAuthorizedWorkflowIds example_request
            (unavailable_for (\<lambda>rs. True) (\<lambda>p. True))
            (\<lambda>req. Inr ''user:default/guest'') [''wf-A''])
     = Inl (Rejected ''ServiceUnavailableError'' ''permission backend is down'')
   \<and> snd (filterAuthorizedWorkflowIds example_request
            (unavailable_for (\<lambda>rs. rs \<noteq> [\<lparr>permission = orchestratorWorkflowPermission\<rparr>])
               (\<lambda>p. False))
            (\<lambda>req. Inr ''user:default/guest'') [''wf-A''])
     = Inl (Rejected ''ServiceUnavailableError'' ''permission backend is down'')"
proof (intro conjI)
  let ?auth = "\<lambda>req :: HttpRequest. (Inr ''user:default/guest'' :: error + credentials)"
  let ?down = "Rejected ''ServiceUnavailableError'' ''permission backend is down''"
  let ?svc1 = "unavailable_for
                 (\<lambda>rs. rs = [\<lparr>permission = orchestratorWorkflowSpecificPermission ''wf-A''\<rparr>])
                 (\<lambda>p. True)"
  let ?ps = "[orchestratorWorkflowPermission, orchestratorWorkflowSpecificPermission ''wf-A'']"
  have "\<exists>e. snd (authorize example_request ?ps ?svc1 ?auth) = Inl e
           \<and> (\<exists>p \<in> set ?ps. ?svc1 [\<lparr>permission = p\<rparr>] ''user:default/guest'' = Inl e)"
    using permission_failure_propagates
      [where auth = ?auth and req = example_request and c = "''user:default/guest''"
         and svc = ?svc1 and ps = ?ps]
    by (simp add: unavailable_for_def)
  then show "snd (authorize example_request ?ps ?svc1 ?auth) = Inl ?down"
    by (auto simp: unavailable_for_def example_permissions_def)
next
  show "snd (filterAuthorizedWorkflowIds example_request
            (unavailable_for (\<lambda>rs. True) (\<lambda>p. True))
            (\<lambda>req. Inr ''user:default/guest'') [''wf-A''])
     = Inl (Rejected ''ServiceUnavailableError'' ''permission backend is down'')"
    using permission_failure_propagates
      [where auth = "\<lambda>req. Inr ''user:default/guest''" and req = example_request
         and c = "''user:default/guest''"
         and svc = "unavailable_for (\<lambda>rs. True) (\<lambda>p. True)"
         and ?e1.0 = "Rejected ''ServiceUnavailableError'' ''permission backend is down''"
         and W = "[''wf-A'']"]
    by (simp add: unavailable_for_def)
next
  show "snd (filterAuthorizedWorkflowIds example_request
            (unavailable_for (\<lambda>rs. rs \<noteq> [\<lparr>permission = orchestratorWorkflowPermission\<rparr>])
               (\<lambda>p. False))
            (\<lambda>req. Inr ''user:default/guest'') [''wf-A''])
     = Inl (Rejected ''ServiceUnavailableError'' ''permission backend is down'')"
    using permission_failure_propagates
      [where auth = "\<lambda>req. Inr ''user:default/guest''" and req = example_request
         and c = "''user:default/guest''"
         and svc = "unavailable_for
                      (\<lambda>rs. rs \<noteq> [\<lparr>permission = orchestratorWorkflowPermission\<rparr>]) (\<lambda>p. False)"
         and g = "\<lparr>result = DENY, properties = [(''scope'', ''any'')]\<rparr>" and gs = "[]"
         and ?e2.0 = "Rejected ''ServiceUnavailableError'' ''permission backend is down''"
         and W = "[''wf-A'']"]
    by (simp add: unavailable_for_def example_permissions_def)
qed

subsection \<open>Filtering an overview list\<close>

text \<open>
  Claim C10. When the \<open>overviews\<close> field of the list result is absent,
  \<open>filterAuthorizedWorkflows\<close> returns the result as it is and calls neither the
  authentication nor the permission service. When it is present and the ids are filtered
  to \<open>ids\<close>, the result is the input with its \<open>overviews\<close> replaced by those of them
  whose \<open>workflowId\<close> is in \<open>ids\<close>, in their order, every other field as it was.
\<close>

theorem filterAuthorizedWorkflows_spec:
  "(overviews workflows = None \<longrightarrow>
      filterAuthorizedWorkflows req svc auth workflows = ([], Inr workflows))
 \<and> (\<forall>ws ids tr. overviews workflows = Some ws
       \<and> filterAuthorizedWorkflowIds req svc auth (map workflowId ws) = (tr, Inr ids) \<longrightarrow>
      filterAuthorizedWorkflows req svc auth workflows =
        (tr, Inr (workflows\<lparr>overviews := Some (filter (\<lambda>w. workflowId w \<in> set ids) ws)\<rparr>)))"
  by (simp add: filterAuthorizedWorkflows_def return_def bind_def)

theorem filterAuthorizedWorkflows_spec_witness:
  "filterAuthorizedWorkflows example_request
     (example_permissions (\<lambda>p. p = orchestratorWorkflowSpecificPermission ''wf-A''))
     (\<lambda>req. Inr ''user:default/guest'')
     \<lparr>overviews = None, paginationInfo = Some (JNum 7)\<rparr>
   = ([], Inr \<lparr>overviews = None, paginationInfo = Some (JNum 7)\<rparr>)
 \<and> filterAuthorizedWorkflows example_request
     (example_permissions (\<lambda>p. p = orchestratorWorkflowSpecificPermission ''wf-A''))
     (\<lambda>req. Inr ''user:default/guest'')
     \<lparr>overviews = Some [\<lparr>workflowId = ''wf-B'', overview_data = JNull\<rparr>,
                          \<lparr>workflowId = ''wf-A'', overview_data = JNum 1\<rparr>],
       paginationInfo = Some (JNum 7)\<rparr>
   = ([PermissionsAuthorize [\<lparr>permission = orchestratorWorkflowPermission\<rparr>],
       PermissionsAuthorize
         [\<lparr>permission = orchestratorWorkflowSpecificPermission ''wf-B''\<rparr>,
          \<lparr>permission = orchestratorWorkflowSpecificPermission ''wf-A''\<rparr>]],
      Inr \<lparr>overviews = Some [\<lparr>workflowId = ''wf-A'', overview_data = JNum 1\<rparr>],
           paginationInfo = Some (JNum 7)\<rparr>)"
proof (intro conjI)
  let ?svc = "example_permissions (\<lambda>p. p = orchestratorWorkflowSpecificPermission ''wf-A'')"
  let ?auth = "\<lambda>req :: HttpRequest. (Inr ''user:default/guest'' :: error + credentials)"
  show "filterAuthorizedWorkflows example_request ?svc ?auth
          \<lparr>overviews = None, paginationInfo = Some (JNum 7)\<rparr>
        = ([], Inr \<lparr>overviews = None, paginationInfo = Some (JNum 7)\<rparr>)"
    using filterAuthorizedWorkflows_spec
      [where workflows = "\<lparr>overviews = None, paginationInfo = Some (JNum 7)\<rparr>"
         and req = example_request and svc = ?svc and auth = ?auth]
    by simp
next
  let ?svc = "example_permissions (\<lambda>p. p = orchestratorWorkflowSpecificPermission ''wf-A'')"
  let ?auth = "\<lambda>req :: HttpRequest. (Inr ''user:default/guest'' :: error + credentials)"
  let ?ws = "[\<lparr>workflowId = ''wf-B'', overview_data = JNull\<rparr>,
              \<lparr>workflowId = ''wf-A'', overview_data = JNum 1\<rparr>]"
  let ?w = "\<lparr>overviews = Some ?ws, paginationInfo = Some (JNum 7)\<rparr>"
  let ?tr = "[PermissionsAuthorize [\<lparr>permission = orchestratorWorkflowPermission\<rparr>],
       PermissionsAuthorize
         [\<lparr>permission = orchestratorWorkflowSpecificPermission ''wf-B''\<rparr>,
          \<lparr>permission = orchestratorWorkflowSpecificPermission ''wf-A''\<rparr>]]"
  have ids: "filterAuthorizedWorkflowIds example_request ?svc ?auth (map workflowId ?ws)
               = (?tr, Inr [''wf-A''])"
    by (simp add: filterAuthorizedWorkflowIds_unfold [where c = "''user:default/guest''"]
        example_permissions_def)
  from filterAuthorizedWorkflows_spec
      [where workflows = ?w and req = example_request and svc = ?svc and auth = ?auth]
  have "overviews ?w = Some ?ws
       \<and> filterAuthorizedWorkflowIds example_request ?svc ?auth (map workflowId ?ws)
           = (?tr, Inr [''wf-A'']) \<longrightarrow>
      filterAuthorizedWorkflows example_request ?svc ?auth ?w =
        (?tr, Inr (?w\<lparr>overviews := Some (filter (\<lambda>w. workflowId w \<in> set [''wf-A'']) ?ws)\<rparr>))"
    by blast
  with ids show "filterAuthorizedWorkflows example_request ?svc ?auth ?w
        = (?tr, Inr \<lparr>overviews = Some [\<lparr>workflowId = ''wf-A'', overview_data = JNum 1\<rparr>],
                     paginationInfo = Some (JNum 7)\<rparr>)"
    by simp
qed

section \<open>The handlers\<close>

subsection \<open>The trace of the permission gate inside a handler\<close>

lemma fst_authorize:
  "fst (authorize req ps svc auth) =
     (case auth req of
        Inl e \<Rightarrow> []
      | Inr c \<Rightarrow> map (\<lambda>p. PermissionsAuthorize [\<lparr>permission = p\<rparr>]) ps)"
  by (simp add: authorize_def bind_def await_def Promise_all_def permissionsSvc_authorize_def
      return_def comp_def Let_def split: sum.splits)







subsection \<open>Authorization and data access, handler by handler\<close>












subsection \<open>The example deployment, evaluated\<close>

lemma example_authorize:
  "authorize example_request ps (example_permissions granted) (httpAuth (example_services g)) =
     (map (\<lambda>p. PermissionsAuthorize [\<lparr>permission = p\<rparr>]) ps,
      Inr (case find granted ps of
             Some p \<Rightarrow> \<lparr>result = ALLOW, properties = [(''scope'', scope_of p)]\<rparr>
           | None \<Rightarrow> \<lparr>result = DENY, properties = []\<rparr>))"
proof -
  let ?dec = "\<lambda>p. \<lparr>result = (if granted p then ALLOW else DENY),
                    properties = [(''scope'', scope_of p)]\<rparr>"
  have a: "all_settled (map (\<lambda>p. example_permissions granted [\<lparr>permission = p\<rparr>]
                                  ''user:default/guest'') ps)
             = Inr (map (\<lambda>p. [?dec p]) ps)"
    by (rule all_settled_Inr) (simp add: example_permissions_def)
  have f: "map first_decision (map (\<lambda>p. [?dec p]) ps) = map Some (map ?dec ps)"
    by simp
  have c: "httpAuth (example_services g) example_request = Inr ''user:default/guest''"
    by (simp add: example_services_def)
  have d: "(case find (\<lambda>d. result d = ALLOW) (map ?dec ps) of
              Some d \<Rightarrow> d | None \<Rightarrow> \<lparr>result = DENY, properties = []\<rparr>)
           = (case find granted ps of
                Some p \<Rightarrow> \<lparr>result = ALLOW, properties = [(''scope'', scope_of p)]\<rparr>
              | None \<Rightarrow> \<lparr>result = DENY, properties = []\<rparr>)"
    by (induction ps) simp_all
  show ?thesis
    by (simp only: authorize_unfold
          [where auth = "httpAuth (example_services g)" and req = example_request, OF c]
          a f find_ALLOW_Some sum.case d)
qed

lemma example_fields:
  "permissions (example_services g) = example_permissions g"
  "v2_getWorkflowStatuses (example_services g) u = Inr (JArr [JStr ''ACTIVE'', JStr ''ABORTED''])"
  "v2_getInstanceById (example_services g) i a
     = Inr \<lparr>instance_processId = ''wf-X'', instance_data = JStr i\<rparr>"
  "v2_abortWorkflow (example_services g) w i = Inr JNull"
  "v2_getWorkflowSourceById (example_services g) w = Inr ''id: wf''"
  "v2_extractQueryParam (example_services g) r k = None"
  "params_instanceId example_request = ''i1''"
  "params_workflowId example_request = ''wf-X''"
  by (simp_all add: example_services_def example_request_def)




subsection \<open>The audit trail, handler by handler\<close>

































subsection \<open>Denial\<close>

lemma denied_getWorkflowSourceById:
  assumes "snd (authorize req (gate_permissions getWorkflowSourceById (params_workflowId req))
                  (permissions env) (httpAuth env)) = Inr decision"
    and "result decision = DENY"
  shows "fst (router_middleware getWorkflowSourceById env req) =
           Audit (start_event ''getWorkflowSourceById''
                    (''/v2/workflows/'' @ params_workflowId req @ ''/source'') req) #
           fst (authorize req (gate_permissions getWorkflowSourceById (params_workflowId req))
                  (permissions env) (httpAuth env)) @
           [Audit (denied_event ''getWorkflowSourceById''
                     (''/v2/workflows/'' @ params_workflowId req @ ''/source'') req),
            Audit (generic_event req UnauthorizedError), Next UnauthorizedError]"
  using assms by (simp add: getWorkflowSourceById_handler_def run_simps)

lemma denied_executeWorkflow:
  assumes "snd (authorize req (gate_permissions executeWorkflow (params_workflowId req))
                  (permissions env) (httpAuth env)) = Inr decision"
    and "result decision = DENY"
  shows "fst (router_middleware executeWorkflow env req) =
           Audit (start_event ''executeWorkflow''
                    (''/v2/workflows/'' @ params_workflowId req @ ''/execute'') req) #
           fst (authorize req (gate_permissions executeWorkflow (params_workflowId req))
                  (permissions env) (httpAuth env)) @
           [Audit (denied_event ''executeWorkflow''
                     (''/v2/workflows/'' @ params_workflowId req @ ''/execute'') req),
            Audit (generic_event req UnauthorizedError), Next UnauthorizedError]"
  using assms by (simp add: executeWorkflow_handler_def run_simps)

lemma denied_retriggerInstance:
  assumes "snd (authorize req (gate_permissions retriggerInstance (params_workflowId req))
                  (permissions env) (httpAuth env)) = Inr decision"
    and "result decision = DENY"
  shows "fst (router_middleware retriggerInstance env req) =
           Audit (start_event ''retriggerInstance''
                    (''/v2/workflows/'' @ params_workflowId req @ ''/'' @ params_instanceId req
                     @ ''/retrigger'') req) #
           fst (authorize req (gate_permissions retriggerInstance (params_workflowId req))
                  (permissions env) (httpAuth env)) @
           [Audit (denied_event ''retriggerInstance''
                     (''/v2/workflows/'' @ params_workflowId req @ ''/'' @ params_instanceId req
                      @ ''/retrigger'') req),
            Audit (generic_event req UnauthorizedError), Next UnauthorizedError]"
  using assms by (simp add: retriggerInstance_handler_def run_simps)

lemma denied_getWorkflowOverviewById:
  assumes "snd (authorize req (gate_permissions getWorkflowOverviewById (params_workflowId req))
                  (permissions env) (httpAuth env)) = Inr decision"
    and "result decision = DENY"
  shows "fst (router_middleware getWorkflowOverviewById env req) =
           Audit (start_event ''getWorkflowOverviewById''
                    (''/v2/workflows/'' @ params_workflowId req @ ''/overview'') req) #
           fst (authorize req (gate_permissions getWorkflowOverviewById (params_workflowId req))
                  (permissions env) (httpAuth env)) @
           [Audit (denied_event ''getWorkflowOverviewById''
                     (''/v2/workflows/'' @ params_workflowId req @ ''/overview'') req),
            Audit (generic_event req UnauthorizedError), Next UnauthorizedError]"
  using assms by (simp add: getWorkflowOverviewById_handler_def run_simps)

lemma denied_getWorkflowInstances:
  assumes "snd (authorize req (gate_permissions getWorkflowInstances (params_workflowId req))
                  (permissions env) (httpAuth env)) = Inr decision"
    and "result decision = DENY"
  shows "fst (router_middleware getWorkflowInstances env req) =
           Audit (start_event ''getWorkflowInstances''
                    (''/v2/workflows/'' @ params_workflowId req @ ''/instances'') req) #
           fst (authorize req (gate_permissions getWorkflowInstances (params_workflowId req))
                  (permissions env) (httpAuth env)) @
           [Audit (denied_event ''getWorkflowInstances''
                     (''/v2/workflows/'' @ params_workflowId req @ ''/instances'') req),
            Audit (generic_event req UnauthorizedError), Next UnauthorizedError]"
  using assms by (simp add: getWorkflowInstances_handler_def run_simps)

lemma denied_getWorkflowInputSchemaById:
  assumes "snd (authorize req (gate_permissions getWorkflowInputSchemaById (params_workflowId req))
                  (permissions env) (httpAuth env)) = Inr decision"
    and "result decision = DENY"
  shows "fst (router_middleware getWorkflowInputSchemaById env req) =
           Audit (start_event ''getWorkflowInputSchemaById''
                    (''/v2/workflows/'' @ params_workflowId req @ ''/inputSchema'') req) #
           fst (authorize req (gate_permissions getWorkflowInputSchemaById (params_workflowId req))
                  (permissions env) (httpAuth env)) @
           [Audit (denied_event ''getWorkflowInputSchemaById''
                     (''/v2/workflows/'' @ params_workflowId req @ ''/inputSchema'') req),
            LoggerError (''/v2/workflows/'' @ params_workflowId req @ ''/inputSchema'')
              UnauthorizedError,
            Audit (failed_event env UnauthorizedError ''getWorkflowInputSchemaById''
                     (''/v2/workflows/'' @ params_workflowId req @ ''/inputSchema'') req),
            Next UnauthorizedError]"
  using assms by (simp add: getWorkflowInputSchemaById_handler_def run_simps)

lemma denied_getInstanceById:
  assumes "gated_workflow getInstanceById env req = Some w"
    and "snd (authorize req (gate_permissions getInstanceById w)
                  (permissions env) (httpAuth env)) = Inr decision"
    and "result decision = DENY"
  shows "fst (router_middleware getInstanceById env req) =
           Audit (start_event ''getInstanceById''
                    (''/v2/workflows/instances/'' @ params_instanceId req) req) #
           DataAccess (GetInstanceById (params_instanceId req)) #
           fst (authorize req (gate_permissions getInstanceById w)
                  (permissions env) (httpAuth env)) @
           [Audit (denied_event ''getInstanceById''
                     (''/v2/workflows/instances/'' @ params_instanceId req) req),
            LoggerError (''/v2/workflows/instances/'' @ params_instanceId req) UnauthorizedError,
            Audit (failed_event env UnauthorizedError ''getInstanceById''
                     (''/v2/workflows/instances/'' @ params_instanceId req) req),
            Next UnauthorizedError]"
proof -
  from assms(1) obtain inst
    where "v2_getInstanceById env (params_instanceId req)
             (Some (truthy_string (v2_extractQueryParam env req QUERY_PARAM_INCLUDE_ASSESSMENT)))
           = Inr inst"
      and "instance_processId inst = w"
    by (auto split: sum.splits)
  with assms(2,3) show ?thesis
    by (simp add: getInstanceById_handler_def run_simps)
qed

lemma denied_abortWorkflow:
  assumes "gated_workflow abortWorkflow env req = Some w"
    and "snd (authorize req (gate_permissions abortWorkflow w)
                  (permissions env) (httpAuth env)) = Inr decision"
    and "result decision = DENY"
  shows "fst (router_middleware abortWorkflow env req) =
           Audit (start_event ''abortWorkflow''
                    (''/v2/workflows/instances/'' @ params_instanceId req @ ''/abort'') req) #
           DataAccess (GetInstanceById (params_instanceId req)) #
           fst (authorize req (gate_permissions abortWorkflow w)
                  (permissions env) (httpAuth env)) @
           [Audit (denied_event ''abortWorkflow''
                     (''/v2/workflows/instances/'' @ params_instanceId req @ ''/abort'') req),
            LoggerError (''/v2/workflows/instances/'' @ params_instanceId req @ ''/abort'')
              UnauthorizedError,
            Audit (failed_event env UnauthorizedError ''abortWorkflow''
                     (''/v2/workflows/instances/'' @ params_instanceId req @ ''/abort'') req),
            Next UnauthorizedError]"
proof -
  from assms(1) obtain inst
    where "v2_getInstanceById env (params_instanceId req) None = Inr inst"
      and "instance_processId inst = w"
    by (auto split: sum.splits)
  with assms(2,3) show ?thesis
    by (simp add: abortWorkflow_handler_def run_simps)
qed

lemma gate_trace_quiet:
  "list_all is_permission_evaluation (fst (authorize req ps svc auth))"
  by (simp add: fst_authorize list_all_iff split: sum.splits) auto

lemma audited_then_rejected_skip:
  "list_all is_permission_evaluation xs \<Longrightarrow>
   audited_then_rejected e (xs @ ys) = audited_then_rejected e ys"
proof (induction xs)
  case Nil then show ?case by simp
next
  case (Cons x xs) then show ?case by (cases x) simp_all
qed

lemma is_response_skip:
  "list_all is_permission_evaluation xs \<Longrightarrow> list_ex is_response (xs @ ys) = list_ex is_response ys"
proof (induction xs)
  case Nil then show ?case by simp
next
  case (Cons x xs) then show ?case by (cases x) simp_all
qed

lemma gate_no_response: "list_ex is_response (fst (authorize req ps svc auth)) = False"
  using is_response_skip [OF gate_trace_quiet, of req ps svc auth "[]"] by simp

lemmas denial_simps = audited_then_rejected_skip [OF gate_trace_quiet]
  is_response_skip [OF gate_trace_quiet] gate_no_response event_simps

text \<open>
  Claim C6. For every request on which the permission gate decides DENY (the request of
  an operation that has a gate, whose handler reaches it), the denial is recorded as an
  audit event with stage \<open>completion\<close>, status \<open>failed\<close> and the error
  UnauthorizedError, and that event is emitted before the error is handed to the
  transport through \<open>next\<close>, which is the last thing the request does; no response is
  sent by the handler.
\<close>

theorem denial_audited_before_rejection:
  assumes w: "gated_workflow op env req = Some w"
    and d: "snd (authorize req (gate_permissions op w) (permissions env) (httpAuth env))
              = Inr decision"
    and r: "result decision = DENY"
  shows "audited_then_rejected UnauthorizedError (fst (router_middleware op env req))
       \<and> last (fst (router_middleware op env req)) = Next UnauthorizedError
       \<and> \<not> list_ex is_response (fst (router_middleware op env req))"
proof (cases op)
  case getWorkflowsOverview
  with w show ?thesis by simp
next
  case getWorkflowStatuses
  with w show ?thesis by simp
next
  case getInstances
  with w show ?thesis by simp
next
  case getWorkflowSourceById
  with w have "w = params_workflowId req" by simp
  with d r getWorkflowSourceById show ?thesis
    by (simp add: denied_getWorkflowSourceById denial_simps)
next
  case executeWorkflow
  with w have "w = params_workflowId req" by simp
  with d r executeWorkflow show ?thesis
    by (simp add: denied_executeWorkflow denial_simps)
next
  case retriggerInstance
  with w have "w = params_workflowId req" by simp
  with d r retriggerInstance show ?thesis
    by (simp add: denied_retriggerInstance denial_simps)
next
  case getWorkflowOverviewById
  with w have "w = params_workflowId req" by simp
  with d r getWorkflowOverviewById show ?thesis
    by (simp add: denied_getWorkflowOverviewById denial_simps)
next
  case getWorkflowInputSchemaById
  with w have "w = params_workflowId req" by simp
  with d r getWorkflowInputSchemaById show ?thesis
    by (simp add: denied_getWorkflowInputSchemaById denial_simps)
next
  case getWorkflowInstances
  with w have "w = params_workflowId req" by simp
  with d r getWorkflowInstances show ?thesis
    by (simp add: denied_getWorkflowInstances denial_simps)
next
  case getInstanceById
  with w d r show ?thesis
    by (simp add: denied_getInstanceById [where w = w and decision = decision] denial_simps)
next
  case abortWorkflow
  with w d r show ?thesis
    by (simp add: denied_abortWorkflow [where w = w and decision = decision] denial_simps)
qed

text \<open>
  A caller with no grant asks for the source of \<open>wf-X\<close> (the router audits the
  completion) and for an instance that \<open>wf-X\<close> owns (the handler does).
\<close>

theorem denial_audited_before_rejection_witness:
  "audited_then_rejected UnauthorizedError
     (fst (router_middleware getWorkflowSourceById (example_services (\<lambda>p. False)) example_request))
   \<and> \<not> list_ex is_response
     (fst (router_middleware getWorkflowSourceById (example_services (\<lambda>p. False)) example_request))
   \<and> audited_then_rejected UnauthorizedError
     (fst (router_middleware getInstanceById (example_services (\<lambda>p. False)) example_request))
   \<and> last (fst (router_middleware getInstanceById (example_services (\<lambda>p. False)) example_request))
       = Next UnauthorizedError"
proof -
  let ?env = "example_services (\<lambda>p. False)"
  have a: "\<And>ps. snd (authorize example_request ps (permissions ?env) (httpAuth ?env))
             = Inr \<lparr>result = DENY, properties = []\<rparr>"
  proof -
    fix ps :: "BasicPermission list"
    have "find (\<lambda>p. False) ps = None" by (induction ps) simp_all
    then show "snd (authorize example_request ps (permissions ?env) (httpAuth ?env))
             = Inr \<lparr>result = DENY, properties = []\<rparr>"
      by (simp add: example_fields example_authorize)
  qed
  have w1: "gated_workflow getWorkflowSourceById ?env example_request = Some ''wf-X''"
    by (simp add: example_fields)
  have w2: "gated_workflow getInstanceById ?env example_request = Some ''wf-X''"
    by (simp add: example_fields)
  have r: "result \<lparr>result = DENY, properties = []\<rparr> = DENY" by simp
  from denial_audited_before_rejection [OF w1 a r] denial_audited_before_rejection [OF w2 a r]
  show ?thesis by blast
qed

subsection \<open>Abort by a caller without the use permission\<close>

lemma authorize_both_denied:
  assumes "auth req = Inr c"
    and "svc [\<lparr>permission = p1\<rparr>] c = Inr (d1 # ds1)" and "result d1 = DENY"
    and "svc [\<lparr>permission = p2\<rparr>] c = Inr (d2 # ds2)" and "result d2 = DENY"
  shows "authorize req [p1, p2] svc auth =
           ([PermissionsAuthorize [\<lparr>permission = p1\<rparr>],
             PermissionsAuthorize [\<lparr>permission = p2\<rparr>]],
            Inr \<lparr>result = DENY, properties = []\<rparr>)"
  using assms by (simp add: authorize_unfold [where c = c])

text \<open>
  Claim C7. An abort request on an instance owned by workflow \<open>wfX\<close>, from a caller to
  whom the permission service denies both the generic use permission and the use
  permission of \<open>wfX\<close>: the handler sends no response of its own and passes an
  UnauthorizedError to the transport, which answers 403; failed audit events are emitted,
  among them a failed completion that carries the error; the abort operation of the
  engine is not invoked.
\<close>

theorem abort_denied:
  assumes "v2_getInstanceById env (params_instanceId req) None = Inr inst"
    and "instance_processId inst = wfX"
    and "httpAuth env req = Inr c"
    and "permissions env [\<lparr>permission = orchestratorWorkflowUsePermission\<rparr>] c = Inr (d1 # ds1)"
    and "result d1 = DENY"
    and "permissions env [\<lparr>permission = orchestratorWorkflowUseSpecificPermission wfX\<rparr>] c
           = Inr (d2 # ds2)"
    and "result d2 = DENY"
    and "error_middleware UnauthorizedError = 403"
  shows "http_status error_middleware (fst (router_middleware abortWorkflow env req)) = Some 403
       \<and> list_ex is_failed_audit (fst (router_middleware abortWorkflow env req))
       \<and> list_ex (is_failed_completion UnauthorizedError)
            (fst (router_middleware abortWorkflow env req))
       \<and> \<not> list_ex is_abort (fst (router_middleware abortWorkflow env req))"
proof -
  let ?endpoint = "''/v2/workflows/instances/'' @ params_instanceId req @ ''/abort''"
  have a: "authorize req
             [orchestratorWorkflowUsePermission, orchestratorWorkflowUseSpecificPermission wfX]
             (permissions env) (httpAuth env) =
           ([PermissionsAuthorize [\<lparr>permission = orchestratorWorkflowUsePermission\<rparr>],
             PermissionsAuthorize [\<lparr>permission = orchestratorWorkflowUseSpecificPermission wfX\<rparr>]],
            Inr \<lparr>result = DENY, properties = []\<rparr>)"
    using assms(3-7) by (rule authorize_both_denied)
  have tr: "fst (router_middleware abortWorkflow env req) =
      [Audit (start_event ''abortWorkflow'' ?endpoint req),
       DataAccess (GetInstanceById (params_instanceId req)),
       PermissionsAuthorize [\<lparr>permission = orchestratorWorkflowUsePermission\<rparr>],
       PermissionsAuthorize [\<lparr>permission = orchestratorWorkflowUseSpecificPermission wfX\<rparr>],
       Audit (denied_event ''abortWorkflow'' ?endpoint req),
       LoggerError ?endpoint UnauthorizedError,
       Audit (failed_event env UnauthorizedError ''abortWorkflow'' ?endpoint req),
       Next UnauthorizedError]"
    using assms(1,2) by (simp add: abortWorkflow_handler_def run_simps a)
  show ?thesis
    using assms(8) by (simp add: tr event_simps)
qed

theorem abort_denied_witness:
  "http_status (\<lambda>e. if e = UnauthorizedError then 403 else 500)
     (fst (router_middleware abortWorkflow (example_services (\<lambda>p. False)) example_request))
     = Some 403
   \<and> list_ex is_failed_audit
       (fst (router_middleware abortWorkflow (example_services (\<lambda>p. False)) example_request))
   \<and> \<not> list_ex is_abort
       (fst (router_middleware abortWorkflow (example_services (\<lambda>p. False)) example_request))"
  using abort_denied
    [where env = "example_services (\<lambda>p. False)" and req = example_request
       and inst = "\<lparr>instance_processId = ''wf-X'', instance_data = JStr ''i1''\<rparr>"
       and wfX = "''wf-X''" and c = "''user:default/guest''"
       and ?d1.0 = "\<lparr>result = DENY, properties = [(''scope'', ''any'')]\<rparr>" and ?ds1.0 = "[]"
       and ?d2.0 = "\<lparr>result = DENY, properties = [(''scope'', ''wf-X'')]\<rparr>" and ?ds2.0 = "[]"
       and error_middleware = "\<lambda>e. if e = UnauthorizedError then 403 else 500"]
  by (simp add: example_services_def example_request_def example_permissions_def)

subsection \<open>The input schema of a workflow without one\<close>

text \<open>
  Claim C8. A getWorkflowInputSchemaById request that the gate allows, for a workflow
  whose info has a service URL and whose fetched definition has no \<open>dataInputSchema\<close>:
  the handler answers 200 with the empty object and does not call
  \<open>fetchInstanceVariables\<close>, whatever the \<open>instanceId\<close> of the query.
\<close>

theorem input_schema_absent:
  assumes "snd (authorize req
                  [orchestratorWorkflowPermission,
                   orchestratorWorkflowSpecificPermission (params_workflowId req)]
                  (permissions env) (httpAuth env)) = Inr decision"
    and "result decision = ALLOW"
    and "orchestratorService_fetchWorkflowInfo env (params_workflowId req) = Inr (Some info)"
    and "truthy_string (serviceUrl info)"
    and "orchestratorService_fetchWorkflowDefinition env (params_workflowId req) = Inr (Some defn)"
    and "\<not> truthy (dataInputSchema defn)"
  shows "router_middleware getWorkflowInputSchemaById env req =
           (Audit (start_event ''getWorkflowInputSchemaById''
                     (''/v2/workflows/'' @ params_workflowId req @ ''/inputSchema'') req) #
            fst (authorize req
                   [orchestratorWorkflowPermission,
                    orchestratorWorkflowSpecificPermission (params_workflowId req)]
                   (permissions env) (httpAuth env)) @
            [DataAccess (FetchWorkflowInfo (params_workflowId req)),
             DataAccess (FetchWorkflowDefinition (params_workflowId req)),
             Response 200 (Json (JObj []))],
            Inr ())
       \<and> http_status error_middleware (fst (router_middleware getWorkflowInputSchemaById env req))
           = Some 200
       \<and> \<not> list_ex is_fetchInstanceVariables
             (fst (router_middleware getWorkflowInputSchemaById env req))"
proof -
  let ?gate = "authorize req
                   [orchestratorWorkflowPermission,
                    orchestratorWorkflowSpecificPermission (params_workflowId req)]
                   (permissions env) (httpAuth env)"
  have h: "getWorkflowInputSchemaById_handler env req =
           (Audit (start_event ''getWorkflowInputSchemaById''
                     (''/v2/workflows/'' @ params_workflowId req @ ''/inputSchema'') req) #
            fst ?gate @
            [DataAccess (FetchWorkflowInfo (params_workflowId req)),
             DataAccess (FetchWorkflowDefinition (params_workflowId req)),
             Response 200 (Json (JObj []))],
            Inr ())"
    using assms
    by (simp add: getWorkflowInputSchemaById_handler_def prod_eq_iff fst_try_catch snd_try_catch
        fst_bind snd_bind prim_simps auditLog_def res_send_def deny_guard_run Let_def)
  have eq: "router_middleware getWorkflowInputSchemaById env req =
              getWorkflowInputSchemaById_handler env req"
    by (simp add: router_middleware_run h)
  have g: "list_all is_permission_evaluation (fst ?gate)"
    by (simp add: fst_authorize split: sum.splits)
  have s: "\<And>xs ys. list_all is_permission_evaluation xs \<Longrightarrow>
             http_status error_middleware (xs @ ys) = http_status error_middleware ys"
  proof -
    fix xs :: "event list" and ys
    show "list_all is_permission_evaluation xs \<Longrightarrow>
             http_status error_middleware (xs @ ys) = http_status error_middleware ys"
    proof (induction xs)
      case Nil then show ?case by simp
    next
      case (Cons x xs) then show ?case by (cases x) simp_all
    qed
  qed
  have f: "\<And>xs. list_all is_permission_evaluation xs \<Longrightarrow> \<not> list_ex is_fetchInstanceVariables xs"
  proof -
    fix xs :: "event list"
    show "list_all is_permission_evaluation xs \<Longrightarrow> \<not> list_ex is_fetchInstanceVariables xs"
    proof (induction xs)
      case Nil then show ?case by simp
    next
      case (Cons x xs) then show ?case by (cases x) simp_all
    qed
  qed
  show ?thesis
    by (simp add: eq h s [OF g] f [OF g])
qed

theorem input_schema_absent_witness:
  "router_middleware getWorkflowInputSchemaById (example_services (\<lambda>p. True)) example_request =
     ([Audit (start_event ''getWorkflowInputSchemaById'' ''/v2/workflows/wf-X/inputSchema''
                example_request),
       PermissionsAuthorize [\<lparr>permission = orchestratorWorkflowPermission\<rparr>],
       PermissionsAuthorize [\<lparr>permission = orchestratorWorkflowSpecificPermission ''wf-X''\<rparr>],
       DataAccess (FetchWorkflowInfo ''wf-X''),
       DataAccess (FetchWorkflowDefinition ''wf-X''),
       Response 200 (Json (JObj []))],
      Inr ())
   \<and> query_instanceId example_request = Some ''i1''"
  using input_schema_absent
    [where env = "example_services (\<lambda>p. True)" and req = example_request
       and decision = "\<lparr>result = ALLOW, properties = [(''scope'', ''any'')]\<rparr>"
       and info = "\<lparr>serviceUrl = Some ''http://sonataflow''\<rparr>"
       and defn = "\<lparr>dataInputSchema = None\<rparr>"]
  by (simp add: example_fields example_authorize)
     (simp add: example_services_def example_request_def)
end
